theory Spec2Isabelle
  imports Main "HOL-Library.Word"
begin

section \<open>The hang source of obs-moq: session lifecycle and decode pipeline\<close>

text \<open>
  A shallow embedding of \<^verbatim>\<open>src/hang-source.cpp\<close>. The C struct \<^verbatim>\<open>hang_source\<close> is a
  record, every function takes the state and returns the new state together with the list
  of calls it made to its collaborators (the MoQ transport, libavcodec, the OBS render
  sink), in program order. What a collaborator answers is an input of the model (the
  \<open>_env\<close> records). Where a function releases the mutex and takes it again later, the
  model applies an interleaving function to the state in between: whatever the other
  threads did to the shared struct while the mutex was free (the identity in a run without
  concurrent activity).

  Nullable C strings and pointers are options. Handles are \<^verbatim>\<open>int32_t\<close>, negative meaning
  invalid; they are only compared with zero and copied, so they are integers here.
  Counters, the generation and the frame geometry are machine words with their
  wrap-around; the monotonic clock is a 64-bit word of nanoseconds. Freeing memory
  (\<^verbatim>\<open>bfree\<close>, \<^verbatim>\<open>sws_freeContext\<close>, \<^verbatim>\<open>av_frame_free\<close>, ...) and log lines leave no trace in
  the model beyond the pointer becoming null, except the one log line of the tick that
  announces a reconnect.
\<close>

subsection \<open>Data\<close>

record obs_source_frame =
  width :: "32 word"
  height :: "32 word"
  linesize0 :: "32 word"
  data0 :: "nat option"
  timestamp :: "64 word"

text \<open>A frame chunk as \<^verbatim>\<open>moq_consume_frame_chunk\<close> fills it in.\<close>

record moq_frame =
  payload :: "8 word list"
  timestamp_us :: "64 word"
  keyframe :: bool

text \<open>The video configuration of a catalog; the two dimensions are nullable pointers.\<close>

record moq_video_config =
  coded_width :: "32 word option"
  coded_height :: "32 word option"
  description :: "8 word list option"

text \<open>What the source writes into a fresh \<^verbatim>\<open>AVCodecContext\<close>.\<close>

record codec =
  cwidth :: "32 word"
  cheight :: "32 word"
  extradata :: "8 word list option"

text \<open>
  A scaler is known by the geometry it was built for, a frame buffer by its size in bytes.
\<close>

record hang_source =
  url :: "string option"
  broadcast :: "string option"
  pending_url :: "string option"
  pending_broadcast :: "string option"
  settings_changed_time :: "64 word"
  reconnect_pending :: bool
  shutting_down :: bool
  generation :: "32 word"
  reconnect_in_progress :: bool
  origin :: int
  session :: int
  consume :: int
  catalog_handle :: int
  video_track :: int
  codec_ctx :: "codec option"
  sws_ctx :: "(int \<times> int) option"
  got_keyframe :: bool
  frames_waiting_for_keyframe :: "32 word"
  consecutive_decode_errors :: "32 word"
  frame :: obs_source_frame
  frame_buffer :: "nat option"

text \<open>
  The calls to the collaborators. \<open>Obs_source_output_video None\<close> is the blank signal
  (a null frame). \<open>Null_dereference\<close> marks \<^verbatim>\<open>strlen\<close> of a null string, where the C
  program has no defined behaviour; the model stops the function there.
\<close>

datatype effect =
    Moq_consume_video_close int
  | Moq_consume_catalog_close int
  | Moq_consume_close int
  | Moq_session_close int
  | Moq_origin_close int
  | Moq_consume_frame_close int
  | Moq_origin_create
  | Moq_session_connect string int
  | Moq_origin_consume int string
  | Moq_consume_catalog int
  | Moq_consume_video_ordered int
  | Obs_source_output_video "obs_source_frame option"
  | Os_sleep_ms nat
  | Avcodec_flush_buffers
  | Sws_scale
  | Log_info_reconnecting string string
  | Null_dereference

definition FRAME_WIDTH :: "32 word" where
  "FRAME_WIDTH = 1920"

definition FRAME_HEIGHT :: "32 word" where
  "FRAME_HEIGHT = 1080"

definition DEBOUNCE_DELAY_MS :: "64 word" where
  "DEBOUNCE_DELAY_MS = 500"

subsection \<open>Teardown\<close>

definition hang_source_destroy_decoder_locked :: "hang_source \<Rightarrow> hang_source" where
  "hang_source_destroy_decoder_locked s =
     (let s1 = s\<lparr>sws_ctx := None\<rparr>;
          s2 = s1\<lparr>codec_ctx := None\<rparr>
      in if frame_buffer s2 \<noteq> None
         then s2\<lparr>frame_buffer := None, frame := (frame s2)\<lparr>data0 := None\<rparr>\<rparr>
         else s2)"

definition hang_source_disconnect_locked :: "hang_source \<Rightarrow> hang_source \<times> effect list" where
  "hang_source_disconnect_locked s =
     (let (s1, e1) = (if video_track s \<ge> 0
                      then (s\<lparr>video_track := -1\<rparr>, [Moq_consume_video_close (video_track s)])
                      else (s, []));
          (s2, e2) = (if catalog_handle s1 \<ge> 0
                      then (s1\<lparr>catalog_handle := -1\<rparr>, [Moq_consume_catalog_close (catalog_handle s1)])
                      else (s1, []));
          (s3, e3) = (if consume s2 \<ge> 0
                      then (s2\<lparr>consume := -1\<rparr>, [Moq_consume_close (consume s2)])
                      else (s2, []));
          (s4, e4) = (if session s3 \<ge> 0
                      then (s3\<lparr>session := -1\<rparr>, [Moq_session_close (session s3)])
                      else (s3, []));
          (s5, e5) = (if origin s4 \<ge> 0
                      then (s4\<lparr>origin := -1\<rparr>, [Moq_origin_close (origin s4)])
                      else (s4, []));
          s6 = hang_source_destroy_decoder_locked s5
      in (s6\<lparr>got_keyframe := False,
             frames_waiting_for_keyframe := 0,
             consecutive_decode_errors := 0\<rparr>,
          e1 @ e2 @ e3 @ e4 @ e5))"

text \<open>
  The cleanup of a failed session, written out three times in the source
  (\<^verbatim>\<open>on_session_status\<close> and twice in \<^verbatim>\<open>hang_source_start_consume\<close>).
\<close>

definition close_session_origin :: "hang_source \<Rightarrow> hang_source \<times> effect list" where
  "close_session_origin s =
     (let (s1, e1) = (if session s \<ge> 0
                      then (s\<lparr>session := -1\<rparr>, [Moq_session_close (session s)])
                      else (s, []));
          (s2, e2) = (if origin s1 \<ge> 0
                      then (s1\<lparr>origin := -1\<rparr>, [Moq_origin_close (origin s1)])
                      else (s1, []))
      in (s2, e1 @ e2))"

subsection \<open>Settings update\<close>

text \<open>
  \<^verbatim>\<open>hang_source_update\<close>: the two strings come from \<^verbatim>\<open>obs_data_get_string\<close>, \<open>now\<close> is
  what \<^verbatim>\<open>os_gettime_ns\<close> returns.
\<close>

definition hang_source_update :: "string \<Rightarrow> string \<Rightarrow> 64 word \<Rightarrow> hang_source \<Rightarrow> hang_source" where
  "hang_source_update new_url new_broadcast now s =
     (let url_differs = (case pending_url s of None \<Rightarrow> True | Some p \<Rightarrow> p \<noteq> new_url);
          s1 = (if url_differs then s\<lparr>pending_url := Some new_url\<rparr> else s);
          broadcast_differs =
            (case pending_broadcast s1 of None \<Rightarrow> True | Some p \<Rightarrow> p \<noteq> new_broadcast);
          s2 = (if broadcast_differs then s1\<lparr>pending_broadcast := Some new_broadcast\<rparr> else s1);
          pending_changed = (url_differs \<or> broadcast_differs)
      in if pending_changed
         then s2\<lparr>settings_changed_time := now, reconnect_pending := True\<rparr>
         else s2)"

text \<open>\<^verbatim>\<open>hang_source_create\<close>: the zeroed struct, the explicit initialisations, then an update.\<close>

definition hang_source_create :: "string \<Rightarrow> string \<Rightarrow> 64 word \<Rightarrow> hang_source" where
  "hang_source_create new_url new_broadcast now =
     hang_source_update new_url new_broadcast now
       \<lparr>url = None, broadcast = None,
        pending_url = None, pending_broadcast = None,
        settings_changed_time = 0, reconnect_pending = False,
        shutting_down = False,
        generation = 0, reconnect_in_progress = False,
        origin = -1, session = -1, consume = -1, catalog_handle = -1, video_track = -1,
        codec_ctx = None, sws_ctx = None,
        got_keyframe = False, frames_waiting_for_keyframe = 0, consecutive_decode_errors = 0,
        frame = \<lparr>width = FRAME_WIDTH, height = FRAME_HEIGHT, linesize0 = FRAME_WIDTH * 4,
                 data0 = None, timestamp = 0\<rparr>,
        frame_buffer = None\<rparr>"

subsection \<open>Reconnect\<close>

record reconnect_env =
  rc_interleave :: "hang_source \<Rightarrow> hang_source"
  rc_origin_create :: int
  rc_session_connect :: int

text \<open>
  \<^verbatim>\<open>hang_source_reconnect\<close>. The mutex is free from the end of the first critical section
  to the commit (or to the clearing of the flag on a failure); \<open>rc_interleave\<close> is what
  happened to the state in that window.
\<close>

definition hang_source_reconnect :: "reconnect_env \<Rightarrow> hang_source \<Rightarrow> hang_source \<times> effect list" where
  "hang_source_reconnect env s =
     (if reconnect_in_progress s then (s, [])
      else
        let new_gen = generation s + 1;
            (s1, es1) = hang_source_disconnect_locked
                          (s\<lparr>reconnect_in_progress := True, generation := new_gen\<rparr>);
            url_copy = url s1;
            pre = es1 @ [Obs_source_output_video None, Os_sleep_ms 50, Moq_origin_create];
            s2 = rc_interleave env s1;
            new_origin = rc_origin_create env
        in if new_origin < 0 then (s2\<lparr>reconnect_in_progress := False\<rparr>, pre)
           else
             (case url_copy of
                None \<Rightarrow> (s2, pre @ [Null_dereference])
              | Some u \<Rightarrow>
                  let new_session = rc_session_connect env;
                      es2 = pre @ [Moq_session_connect u new_origin]
                  in if new_session < 0
                     then (s2\<lparr>reconnect_in_progress := False\<rparr>, es2 @ [Moq_origin_close new_origin])
                     else if generation s2 \<noteq> new_gen
                     then (s2\<lparr>reconnect_in_progress := False\<rparr>,
                           es2 @ [Moq_session_close new_session, Moq_origin_close new_origin])
                     else (s2\<lparr>origin := new_origin, session := new_session,
                               reconnect_in_progress := False\<rparr>, es2)))"

subsection \<open>The tick\<close>

record tick_env =
  tk_interleave :: "hang_source \<Rightarrow> hang_source"
  tk_reconnect :: reconnect_env

text \<open>
  \<^verbatim>\<open>hang_source_video_tick\<close>; \<open>now\<close> is what \<^verbatim>\<open>os_gettime_ns\<close> returns. The subtraction and
  the division are those of \<^verbatim>\<open>uint64_t\<close>. \<open>tk_interleave\<close> covers the window between the
  tick's unlock and the lock of the reconnect it calls.
\<close>

definition hang_source_video_tick :: "tick_env \<Rightarrow> 64 word \<Rightarrow> hang_source \<Rightarrow> hang_source \<times> effect list" where
  "hang_source_video_tick env now s =
     (if shutting_down s then (s, [])
      else if \<not> reconnect_pending s then (s, [])
      else
        let elapsed_ms = (now - settings_changed_time s) div 1000000
        in if elapsed_ms < DEBOUNCE_DELAY_MS then (s, [])
           else
             let s1 = s\<lparr>reconnect_pending := False\<rparr>;
                 url_changed =
                   (case (url s1, pending_url s1) of
                      (None, Some p) \<Rightarrow> True
                    | (Some a, None) \<Rightarrow> True
                    | (Some a, Some p) \<Rightarrow> a \<noteq> p
                    | (None, None) \<Rightarrow> False);
                 broadcast_changed =
                   (case (broadcast s1, pending_broadcast s1) of
                      (None, Some p) \<Rightarrow> True
                    | (Some a, None) \<Rightarrow> True
                    | (Some a, Some p) \<Rightarrow> a \<noteq> p
                    | (None, None) \<Rightarrow> False)
             in if \<not> url_changed \<and> \<not> broadcast_changed then (s1, [])
                else
                  let s2 = s1\<lparr>url := pending_url s1, broadcast := pending_broadcast s1\<rparr>
                  in (case (url s2, broadcast s2) of
                        (Some u, Some b) \<Rightarrow>
                          if u \<noteq> [] \<and> b \<noteq> []
                          then
                            let (s3, es) = hang_source_reconnect (tk_reconnect env)
                                             (tk_interleave env s2)
                            in (s3, Log_info_reconnecting u b # es)
                          else
                            let (s3, es) = hang_source_disconnect_locked s2
                            in (s3, es @ [Obs_source_output_video None])
                      | _ \<Rightarrow>
                          let (s3, es) = hang_source_disconnect_locked s2
                          in (s3, es @ [Obs_source_output_video None])))"

subsection \<open>Session status and broadcast consumption\<close>

record consume_env =
  sc_origin_consume :: int
  sc_interleave1 :: "hang_source \<Rightarrow> hang_source"
  sc_consume_catalog :: int
  sc_interleave2 :: "hang_source \<Rightarrow> hang_source"

text \<open>
  \<^verbatim>\<open>hang_source_start_consume\<close>. \<open>sc_interleave1\<close> is the window around
  \<^verbatim>\<open>moq_origin_consume\<close>, \<open>sc_interleave2\<close> the one around \<^verbatim>\<open>moq_consume_catalog\<close>. The
  handle that \<^verbatim>\<open>moq_consume_catalog\<close> returns stays in a local variable.
\<close>

definition hang_source_start_consume ::
    "consume_env \<Rightarrow> 32 word \<Rightarrow> hang_source \<Rightarrow> hang_source \<times> effect list" where
  "hang_source_start_consume env expected_gen s =
     (if origin s < 0 \<or> generation s \<noteq> expected_gen then (s, [])
      else
        (case broadcast s of
           None \<Rightarrow> (s, [Null_dereference])
         | Some broadcast_copy \<Rightarrow>
             let origin_v = origin s;
                 consume_v = sc_origin_consume env;
                 es0 = [Moq_origin_consume origin_v broadcast_copy];
                 s1 = sc_interleave1 env s
             in if consume_v < 0
                then
                  let (s2, es) = (if generation s1 = expected_gen
                                  then close_session_origin s1 else (s1, []))
                  in (s2, es0 @ es @ [Obs_source_output_video None])
                else if generation s1 \<noteq> expected_gen
                then (s1, es0 @ [Moq_consume_close consume_v])
                else
                  let s2 = s1\<lparr>consume := consume_v\<rparr>;
                      catalog_v = sc_consume_catalog env;
                      es1 = es0 @ [Moq_consume_catalog consume_v]
                  in if catalog_v < 0
                     then
                       let s3 = sc_interleave2 env s2;
                           (s4, e4) =
                             (if generation s3 = expected_gen
                              then
                                let (t1, c1) =
                                      (if consume s3 \<ge> 0
                                       then (s3\<lparr>consume := -1\<rparr>, [Moq_consume_close (consume s3)])
                                       else (s3, []));
                                    (t2, c2) = close_session_origin t1
                                in (t2, c1 @ c2)
                              else (s3, []))
                       in (s4, es1 @ e4 @ [Obs_source_output_video None])
                     else (s2, es1)))"

record session_status_env =
  ss_interleave :: "hang_source \<Rightarrow> hang_source"
  ss_consume :: consume_env

text \<open>\<^verbatim>\<open>on_session_status\<close>; \<open>code\<close> is the status the transport reports.\<close>

definition on_session_status ::
    "session_status_env \<Rightarrow> int \<Rightarrow> hang_source \<Rightarrow> hang_source \<times> effect list" where
  "on_session_status env code s =
     (if shutting_down s then (s, [])
      else if session s < 0 then (s, [])
      else
        let current_gen = generation s
        in if code = 0
           then hang_source_start_consume (ss_consume env) current_gen (ss_interleave env s)
           else
             let (s1, es) = close_session_origin s
             in (s1, es @ [Obs_source_output_video None]))"

subsection \<open>Decoder set-up and the catalog callback\<close>

record init_decoder_env =
  id_find_decoder :: bool
  id_alloc_context3 :: bool
  id_mallocz :: bool
  id_open2 :: bool
  id_bmalloc :: bool
  id_sws_getContext :: bool

text \<open>
  \<^verbatim>\<open>hang_source_init_decoder\<close>: \<open>None\<close> is the result \<^verbatim>\<open>false\<close>, with the state untouched;
  \<open>Some\<close> carries the state with the new decoder swapped in. The state passed in is the
  one found when the function takes the mutex. The buffer size is computed in
  \<^verbatim>\<open>uint32_t\<close>, as the source does.
\<close>

definition hang_source_init_decoder ::
    "init_decoder_env \<Rightarrow> moq_video_config \<Rightarrow> hang_source \<Rightarrow> hang_source option" where
  "hang_source_init_decoder env config s =
     (if \<not> id_find_decoder env then None
      else if \<not> id_alloc_context3 env then None
      else
        let c0 = \<lparr>cwidth = 0, cheight = 0, extradata = None\<rparr>;
            (c1, w) = (case coded_width config of
                         Some cw \<Rightarrow> if cw > 0 then (c0\<lparr>cwidth := cw\<rparr>, cw) else (c0, FRAME_WIDTH)
                       | None \<Rightarrow> (c0, FRAME_WIDTH));
            (c2, h) = (case coded_height config of
                         Some ch \<Rightarrow> if ch > 0 then (c1\<lparr>cheight := ch\<rparr>, ch) else (c1, FRAME_HEIGHT)
                       | None \<Rightarrow> (c1, FRAME_HEIGHT));
            c3 = (case description config of
                    Some d \<Rightarrow> if length d > 0 \<and> id_mallocz env then c2\<lparr>extradata := Some d\<rparr> else c2
                  | None \<Rightarrow> c2)
        in if \<not> id_open2 env then None
           else
             let buffer_size = unat (w * h * 4)
             in if \<not> id_bmalloc env then None
                else if \<not> id_sws_getContext env then None
                else Some (s\<lparr>codec_ctx := Some c3,
                             sws_ctx := Some (sint w, sint h),
                             frame_buffer := Some buffer_size,
                             frame := (frame s)\<lparr>width := w, height := h, linesize0 := w * 4,
                                               data0 := Some buffer_size, timestamp := 0\<rparr>,
                             got_keyframe := False,
                             frames_waiting_for_keyframe := 0,
                             consecutive_decode_errors := 0\<rparr>))"

record catalog_env =
  ct_video_config :: "moq_video_config option"
  ct_interleave1 :: "hang_source \<Rightarrow> hang_source"
  ct_decoder :: init_decoder_env
  ct_video_ordered :: int
  ct_interleave2 :: "hang_source \<Rightarrow> hang_source"

text \<open>
  \<^verbatim>\<open>on_catalog\<close>; \<open>catalog\<close> is the handle (or the negative error) the transport delivers,
  \<open>ct_video_config\<close> is \<open>None\<close> when \<^verbatim>\<open>moq_consume_video_config\<close> fails.
\<close>

definition on_catalog :: "catalog_env \<Rightarrow> int \<Rightarrow> hang_source \<Rightarrow> hang_source \<times> effect list" where
  "on_catalog env catalog s =
     (if shutting_down s
      then (s, if catalog \<ge> 0 then [Moq_consume_catalog_close catalog] else [])
      else
        let current_gen = generation s
        in if consume s < 0
           then (s, if catalog \<ge> 0 then [Moq_consume_catalog_close catalog] else [])
           else if catalog < 0 then (s, [Obs_source_output_video None])
           else
             (case ct_video_config env of
                None \<Rightarrow> (s, [Moq_consume_catalog_close catalog])
              | Some video_config \<Rightarrow>
                  (case hang_source_init_decoder (ct_decoder env) video_config
                          (ct_interleave1 env s) of
                     None \<Rightarrow> (s, [Moq_consume_catalog_close catalog])
                   | Some s1 \<Rightarrow>
                       let track = ct_video_ordered env;
                           es = [Moq_consume_video_ordered catalog]
                       in if track < 0 then (s1, es @ [Moq_consume_catalog_close catalog])
                          else
                            let s2 = ct_interleave2 env s1
                            in if generation s2 = current_gen
                               then (s2\<lparr>video_track := track, catalog_handle := catalog\<rparr>, es)
                               else (s2, es @ [Moq_consume_video_close track,
                                               Moq_consume_catalog_close catalog]))))"

subsection \<open>Frame decoding\<close>

record decode_env =
  de_frame_chunk :: "moq_frame option"
  de_packet_alloc :: bool
  de_send_packet :: int
  de_frame_alloc :: bool
  de_receive_frame :: int
  de_frame_width :: int
  de_frame_height :: int
  de_sws_getContext :: bool
  de_bmalloc :: bool
  de_averror_eagain :: int

text \<open>
  The error accounting that follows a failed \<^verbatim>\<open>avcodec_send_packet\<close> and a failed
  \<^verbatim>\<open>avcodec_receive_frame\<close> alike; \<open>ret\<close> is negative when it is called.
\<close>

definition decode_failure :: "decode_env \<Rightarrow> int \<Rightarrow> hang_source \<Rightarrow> hang_source \<times> effect list" where
  "decode_failure env ret s =
     (if ret \<noteq> de_averror_eagain env
      then
        let s1 = s\<lparr>consecutive_decode_errors := consecutive_decode_errors s + 1\<rparr>
        in if consecutive_decode_errors s1 \<ge> 5
           then (s1\<lparr>got_keyframe := False, consecutive_decode_errors := 0\<rparr>,
                 [Avcodec_flush_buffers])
           else (s1, [])
      else (s, []))"

text \<open>The last lines of \<^verbatim>\<open>hang_source_decode_frame\<close>: convert, stamp and hand to the sink.\<close>

definition convert_and_output :: "moq_frame \<Rightarrow> hang_source \<Rightarrow> hang_source \<times> effect list" where
  "convert_and_output frame_data s =
     (let s1 = s\<lparr>frame := (frame s)\<lparr>timestamp := timestamp_us frame_data\<rparr>\<rparr>
      in (s1, [Sws_scale, Obs_source_output_video (Some (frame s1))]))"

text \<open>
  \<^verbatim>\<open>hang_source_decode_frame\<close>. \<open>de_frame_chunk = None\<close> is a failing
  \<^verbatim>\<open>moq_consume_frame_chunk\<close>; \<open>de_send_packet\<close> and \<open>de_receive_frame\<close> are the return
  codes of libavcodec, \<open>de_frame_width\<close> and \<open>de_frame_height\<close> the geometry of the
  decoded picture, \<open>de_averror_eagain\<close> the platform's value of \<^verbatim>\<open>AVERROR(EAGAIN)\<close>.
\<close>

definition hang_source_decode_frame ::
    "decode_env \<Rightarrow> int \<Rightarrow> hang_source \<Rightarrow> hang_source \<times> effect list" where
  "hang_source_decode_frame env frame_id s =
     (if shutting_down s then (s, [Moq_consume_frame_close frame_id])
      else if codec_ctx s = None \<or> sws_ctx s = None \<or> frame_buffer s = None
      then (s, [Moq_consume_frame_close frame_id])
      else
        (case de_frame_chunk env of
           None \<Rightarrow> (s, [Moq_consume_frame_close frame_id])
         | Some frame_data \<Rightarrow>
             if \<not> got_keyframe s \<and> \<not> keyframe frame_data
             then (s\<lparr>frames_waiting_for_keyframe := frames_waiting_for_keyframe s + 1\<rparr>,
                   [Moq_consume_frame_close frame_id])
             else
               let (s1, es1) =
                     (if keyframe frame_data
                      then (s\<lparr>got_keyframe := True,
                               frames_waiting_for_keyframe := 0,
                               consecutive_decode_errors := 0\<rparr>,
                            if \<not> got_keyframe s then [Avcodec_flush_buffers] else [])
                      else (s, []))
               in if \<not> de_packet_alloc env then (s1, es1 @ [Moq_consume_frame_close frame_id])
                  else if de_send_packet env < 0
                  then
                    let (s2, es2) = decode_failure env (de_send_packet env) s1
                    in (s2, es1 @ es2 @ [Moq_consume_frame_close frame_id])
                  else if \<not> de_frame_alloc env
                  then (s1, es1 @ [Moq_consume_frame_close frame_id])
                  else if de_receive_frame env < 0
                  then
                    let (s2, es2) = decode_failure env (de_receive_frame env) s1
                    in (s2, es1 @ es2 @ [Moq_consume_frame_close frame_id])
                  else
                    let s2 = s1\<lparr>consecutive_decode_errors := 0\<rparr>;
                        fw = de_frame_width env;
                        fh = de_frame_height env
                    in if fw \<noteq> sint (width (frame s2)) \<or> fh \<noteq> sint (height (frame s2))
                       then
                         if fw \<le> 0 \<or> fh \<le> 0 \<or> fw > 16384 \<or> fh > 16384
                         then (s2, es1 @ [Moq_consume_frame_close frame_id])
                         else
                           let s3 = s2\<lparr>sws_ctx := None\<rparr>
                           in if \<not> de_sws_getContext env
                              then (s3, es1 @ [Moq_consume_frame_close frame_id])
                              else
                                let new_buffer_size = nat fw * nat fh * 4
                                in if \<not> de_bmalloc env
                                   then (s3, es1 @ [Moq_consume_frame_close frame_id])
                                   else
                                     let s4 = s3\<lparr>sws_ctx := Some (fw, fh),
                                                  frame_buffer := Some new_buffer_size,
                                                  frame := (frame s3)
                                                     \<lparr>width := word_of_int fw,
                                                      height := word_of_int fh,
                                                      linesize0 := word_of_int (fw * 4),
                                                      data0 := Some new_buffer_size\<rparr>\<rparr>;
                                         (s5, es5) = convert_and_output frame_data s4
                                     in (s5, es1 @ es5 @ [Moq_consume_frame_close frame_id])
                       else
                         let (s5, es5) = convert_and_output frame_data s2
                         in (s5, es1 @ es5 @ [Moq_consume_frame_close frame_id])))"

record video_frame_env =
  vf_interleave :: "hang_source \<Rightarrow> hang_source"
  vf_decode :: decode_env

text \<open>
  \<^verbatim>\<open>on_video_frame\<close>; \<open>vf_interleave\<close> is the window between the callback's unlock and the
  lock of \<^verbatim>\<open>hang_source_decode_frame\<close>.
\<close>

definition on_video_frame ::
    "video_frame_env \<Rightarrow> int \<Rightarrow> hang_source \<Rightarrow> hang_source \<times> effect list" where
  "on_video_frame env frame_id s =
     (if frame_id < 0 then (s, [])
      else if shutting_down s then (s, [Moq_consume_frame_close frame_id])
      else if consume s < 0 then (s, [Moq_consume_frame_close frame_id])
      else hang_source_decode_frame (vf_decode env) frame_id (vf_interleave env s))"

subsection \<open>Shutdown\<close>

text \<open>
  \<^verbatim>\<open>hang_source_destroy\<close> up to the point where it frees the struct: the flag, the
  teardown, the grace period.\<close>

definition hang_source_destroy :: "hang_source \<Rightarrow> hang_source \<times> effect list" where
  "hang_source_destroy s =
     (let (s1, es) = hang_source_disconnect_locked (s\<lparr>shutting_down := True\<rparr>)
      in (s1, es @ [Os_sleep_ms 100]))"

section \<open>Runs and observations\<close>

text \<open>
  What the properties below are stated with: a run of settings updates, the observations
  on a list of calls, and some concrete runs of the program.
\<close>

text \<open>A sequence of settings updates, each with the clock reading it was made at.\<close>

fun run_updates :: "(string \<times> string \<times> 64 word) list \<Rightarrow> hang_source \<Rightarrow> hang_source" where
  "run_updates [] s = s"
| "run_updates ((u, b, t) # us) s = run_updates us (hang_source_update u b t s)"

text \<open>The tick's announcement of a reconnect, made right before it calls the reconnect.\<close>

fun reconnect_announced :: "effect \<Rightarrow> bool" where
  "reconnect_announced (Log_info_reconnecting u b) = True"
| "reconnect_announced e = False"

text \<open>The urls of the session connects among the calls.\<close>

fun connect_urls :: "effect list \<Rightarrow> string list" where
  "connect_urls [] = []"
| "connect_urls (Moq_session_connect u h # es) = u # connect_urls es"
| "connect_urls (e # es) = connect_urls es"

text \<open>No other thread touches the state.\<close>

definition no_interleave :: "hang_source \<Rightarrow> hang_source" where
  "no_interleave s = s"

text \<open>A transport that grants origin 1 and session 2.\<close>

definition example_tick_env :: tick_env where
  "example_tick_env =
     \<lparr>tk_interleave = no_interleave,
      tk_reconnect = \<lparr>rc_interleave = no_interleave,
                      rc_origin_create = 1, rc_session_connect = 2\<rparr>\<rparr>"

text \<open>A source created with its settings, ticked after the debounce delay.\<close>

definition connecting_state :: hang_source where
  "connecting_state =
     fst (hang_source_video_tick example_tick_env 600000000
            (hang_source_create ''https://relay'' ''cam'' 0))"

text \<open>A source whose url is typed in three steps, 100 ms apart.\<close>

definition typing_updates :: "(string \<times> string \<times> 64 word) list" where
  "typing_updates = [(''https://rela'', ''cam'', 100000000)]"

definition typed_state :: hang_source where
  "typed_state =
     hang_source_update ''https://relay'' ''cam'' 200000000
       (run_updates typing_updates (hang_source_create ''https://rel'' ''cam'' 0))"

text \<open>A source created with an empty url.\<close>

definition blank_config_state :: hang_source where
  "blank_config_state = hang_source_create [] ''x'' 0"

text \<open>A source whose settings are written a second time, unchanged, after 400 ms.\<close>

definition retyped_state :: hang_source where
  "retyped_state =
     hang_source_update ''https://relay'' ''cam'' 400000000
       (hang_source_create ''https://relay'' ''cam'' 0)"

text \<open>The calls that ask the transport for a new handle.\<close>

fun creates_handle :: "effect \<Rightarrow> bool" where
  "creates_handle Moq_origin_create = True"
| "creates_handle (Moq_session_connect u h) = True"
| "creates_handle (Moq_origin_consume h b) = True"
| "creates_handle (Moq_consume_catalog h) = True"
| "creates_handle (Moq_consume_video_ordered h) = True"
| "creates_handle e = False"

text \<open>
  The entry points as the host and the transport invoke them, one after the other, each
  with what its collaborators answer.
\<close>

datatype event =
    Update string string "64 word"
  | Tick tick_env "64 word"
  | Session_status session_status_env int
  | Catalog catalog_env int
  | Video_frame video_frame_env int
  | Destroy

fun deliver :: "event \<Rightarrow> hang_source \<Rightarrow> hang_source \<times> effect list" where
  "deliver (Update u b now) s = (hang_source_update u b now s, [])"
| "deliver (Tick env now) s = hang_source_video_tick env now s"
| "deliver (Session_status env code) s = on_session_status env code s"
| "deliver (Catalog env catalog) s = on_catalog env catalog s"
| "deliver (Video_frame env frame_id) s = on_video_frame env frame_id s"
| "deliver Destroy s = hang_source_destroy s"

fun run :: "event list \<Rightarrow> hang_source \<Rightarrow> hang_source \<times> effect list" where
  "run [] s = (s, [])"
| "run (e # es) s =
     (let (s1, c1) = deliver e s;
          (s2, c2) = run es s1
      in (s2, c1 @ c2))"

text \<open>Another reconnect bumps the generation while this one is outside the mutex.\<close>

definition superseding_env :: reconnect_env where
  "superseding_env =
     \<lparr>rc_interleave = (\<lambda>s. s\<lparr>generation := generation s + 1\<rparr>),
      rc_origin_create = 3, rc_session_connect = 4\<rparr>"

text \<open>The connected source after its url has been cleared in the settings.\<close>

definition cleared_state :: hang_source where
  "cleared_state = hang_source_update [] ''cam'' 1000000000 connecting_state"

text \<open>What a callback or a tick has to close when it is discarded.\<close>

fun inbound_close :: "event \<Rightarrow> effect list" where
  "inbound_close (Catalog env catalog) =
     (if catalog \<ge> 0 then [Moq_consume_catalog_close catalog] else [])"
| "inbound_close (Video_frame env frame_id) =
     (if frame_id \<ge> 0 then [Moq_consume_frame_close frame_id] else [])"
| "inbound_close e = []"

fun is_async :: "event \<Rightarrow> bool" where
  "is_async (Update u b now) = False"
| "is_async Destroy = False"
| "is_async e = True"

text \<open>
  A transport that grants consume handle 3 and catalog subscription 4, a catalog
  announcing 1280 x 720 video, a codec library that never fails, and track 6.
\<close>

definition example_status_env :: session_status_env where
  "example_status_env =
     \<lparr>ss_interleave = no_interleave,
      ss_consume = \<lparr>sc_origin_consume = 3, sc_interleave1 = no_interleave,
                    sc_consume_catalog = 4, sc_interleave2 = no_interleave\<rparr>\<rparr>"

definition example_decoder_env :: init_decoder_env where
  "example_decoder_env =
     \<lparr>id_find_decoder = True, id_alloc_context3 = True, id_mallocz = True,
      id_open2 = True, id_bmalloc = True, id_sws_getContext = True\<rparr>"

definition example_catalog_env :: catalog_env where
  "example_catalog_env =
     \<lparr>ct_video_config = Some \<lparr>coded_width = Some 1280, coded_height = Some 720,
                               description = Some [1, 100, 0, 31]\<rparr>,
      ct_interleave1 = no_interleave,
      ct_decoder = example_decoder_env,
      ct_video_ordered = 6,
      ct_interleave2 = no_interleave\<rparr>"

text \<open>The source once the session is up and catalog 5 has been received.\<close>

definition consuming_state :: hang_source where
  "consuming_state = fst (on_session_status example_status_env 0 connecting_state)"

definition streaming_state :: hang_source where
  "streaming_state = fst (on_catalog example_catalog_env 5 consuming_state)"

text \<open>The same source after its destruction has begun.\<close>

definition shut_down_state :: hang_source where
  "shut_down_state = fst (hang_source_destroy streaming_state)"

text \<open>
  Frames: a delta frame and a keyframe that decode to a 1280 x 720 picture, and a frame
  the decoder rejects (\<open>-1094995529\<close> is \<^verbatim>\<open>AVERROR_INVALIDDATA\<close>, \<open>-11\<close> is
  \<^verbatim>\<open>AVERROR(EAGAIN)\<close> on Linux).
\<close>

definition delta_frame_env :: decode_env where
  "delta_frame_env =
     \<lparr>de_frame_chunk = Some \<lparr>payload = [0, 0, 1, 65], timestamp_us = 33000, keyframe = False\<rparr>,
      de_packet_alloc = True, de_send_packet = 0,
      de_frame_alloc = True, de_receive_frame = 0,
      de_frame_width = 1280, de_frame_height = 720,
      de_sws_getContext = True, de_bmalloc = True,
      de_averror_eagain = -11\<rparr>"

definition key_frame_env :: decode_env where
  "key_frame_env =
     delta_frame_env
       \<lparr>de_frame_chunk :=
          Some \<lparr>payload = [0, 0, 1, 101], timestamp_us = 66000, keyframe = True\<rparr>\<rparr>"

definition bad_frame_env :: decode_env where
  "bad_frame_env = delta_frame_env\<lparr>de_send_packet := -1094995529\<rparr>"

text \<open>The frames handed to the render sink among the calls.\<close>

fun output_frames :: "effect list \<Rightarrow> obs_source_frame list" where
  "output_frames [] = []"
| "output_frames (Obs_source_output_video (Some f) # es) = f # output_frames es"
| "output_frames (e # es) = output_frames es"

fun is_frame_close :: "effect \<Rightarrow> bool" where
  "is_frame_close (Moq_consume_frame_close h) = True"
| "is_frame_close e = False"

text \<open>The calls that close a handle of the connection chain.\<close>

fun closes_chain :: "effect \<Rightarrow> bool" where
  "closes_chain (Moq_consume_video_close h) = True"
| "closes_chain (Moq_consume_catalog_close h) = True"
| "closes_chain (Moq_consume_close h) = True"
| "closes_chain (Moq_session_close h) = True"
| "closes_chain (Moq_origin_close h) = True"
| "closes_chain e = False"

text \<open>Frames decoded one after the other, each with its handle.\<close>

fun decode_frames :: "(decode_env \<times> int) list \<Rightarrow> hang_source \<Rightarrow> hang_source \<times> effect list" where
  "decode_frames [] s = (s, [])"
| "decode_frames ((env, frame_id) # fs) s =
     (let (s1, c1) = hang_source_decode_frame env frame_id s;
          (s2, c2) = decode_frames fs s1
      in (s2, c1 @ c2))"

text \<open>The frame could be fetched and is a keyframe.\<close>

definition carries_keyframe :: "decode_env \<Rightarrow> bool" where
  "carries_keyframe env =
     (case de_frame_chunk env of None \<Rightarrow> False | Some frame_data \<Rightarrow> keyframe frame_data)"

text \<open>
  The decoder fails on the frame, at \<^verbatim>\<open>avcodec_send_packet\<close> or at
  \<^verbatim>\<open>avcodec_receive_frame\<close>, with something else than \<^verbatim>\<open>AVERROR(EAGAIN)\<close>; and the
  transient case, where it is \<^verbatim>\<open>AVERROR(EAGAIN)\<close>.
\<close>

definition genuine_failure :: "decode_env \<Rightarrow> bool" where
  "genuine_failure env =
     (de_packet_alloc env
      \<and> (de_send_packet env < 0 \<and> de_send_packet env \<noteq> de_averror_eagain env
         \<or> de_send_packet env \<ge> 0 \<and> de_frame_alloc env
            \<and> de_receive_frame env < 0 \<and> de_receive_frame env \<noteq> de_averror_eagain env))"

definition needs_more_input :: "decode_env \<Rightarrow> bool" where
  "needs_more_input env =
     (de_packet_alloc env
      \<and> (de_send_packet env < 0 \<and> de_send_packet env = de_averror_eagain env
         \<or> de_send_packet env \<ge> 0 \<and> de_frame_alloc env
            \<and> de_receive_frame env < 0 \<and> de_receive_frame env = de_averror_eagain env))"

text \<open>The decoder produced a picture for the frame.\<close>

definition decodes :: "decode_env \<Rightarrow> bool" where
  "decodes env =
     (de_packet_alloc env \<and> de_send_packet env \<ge> 0
      \<and> de_frame_alloc env \<and> de_receive_frame env \<ge> 0)"

text \<open>
  The state after the keyframe bookkeeping of \<^verbatim>\<open>hang_source_decode_frame\<close>, which comes
  before the packet is sent to the decoder.
\<close>

definition keyframe_marked :: "moq_frame \<Rightarrow> hang_source \<Rightarrow> hang_source" where
  "keyframe_marked frame_data s =
     (if keyframe frame_data
      then s\<lparr>got_keyframe := True, frames_waiting_for_keyframe := 0,
              consecutive_decode_errors := 0\<rparr>
      else s)"

text \<open>The decoder flush that goes with the first keyframe after a wait.\<close>

definition keyframe_flush :: "moq_frame \<Rightarrow> hang_source \<Rightarrow> effect list" where
  "keyframe_flush frame_data s =
     (if keyframe frame_data \<and> \<not> got_keyframe s then [Avcodec_flush_buffers] else [])"

text \<open>
  The frame gets as far as the decoder: no shutdown, a complete decoder, the chunk
  \<open>frame_data\<close> fetched, and a keyframe seen before or now.
\<close>

definition reaches_decoder :: "decode_env \<Rightarrow> hang_source \<Rightarrow> moq_frame \<Rightarrow> bool" where
  "reaches_decoder env s frame_data =
     (\<not> shutting_down s
      \<and> codec_ctx s \<noteq> None \<and> sws_ctx s \<noteq> None \<and> frame_buffer s \<noteq> None
      \<and> de_frame_chunk env = Some frame_data
      \<and> (got_keyframe s \<or> keyframe frame_data))"

text \<open>The packet or the picture could not be allocated.\<close>

definition allocation_fails :: "decode_env \<Rightarrow> bool" where
  "allocation_fails env =
     (\<not> de_packet_alloc env
      \<or> de_packet_alloc env \<and> de_send_packet env \<ge> 0 \<and> \<not> de_frame_alloc env)"

text \<open>The decoded picture has another geometry than the frame buffer.\<close>

definition geometry_differs :: "decode_env \<Rightarrow> hang_source \<Rightarrow> bool" where
  "geometry_differs env s =
     (de_frame_width env \<noteq> sint (width (frame s))
      \<or> de_frame_height env \<noteq> sint (height (frame s)))"

definition geometry_out_of_range :: "decode_env \<Rightarrow> bool" where
  "geometry_out_of_range env =
     (de_frame_width env \<le> 0 \<or> de_frame_height env \<le> 0
      \<or> de_frame_width env > 16384 \<or> de_frame_height env > 16384)"

text \<open>The connection chain, the generation, the shutdown flag and the codec are the same.\<close>

definition same_connection :: "hang_source \<Rightarrow> hang_source \<Rightarrow> bool" where
  "same_connection s s' =
     (origin s' = origin s \<and> session s' = session s \<and> consume s' = consume s
      \<and> catalog_handle s' = catalog_handle s \<and> video_track s' = video_track s
      \<and> generation s' = generation s \<and> shutting_down s' = shutting_down s
      \<and> codec_ctx s' = codec_ctx s)"


text \<open>The streaming source after its first keyframe, and after four bad frames more.\<close>

definition keyed_state :: hang_source where
  "keyed_state = fst (hang_source_decode_frame key_frame_env 11 streaming_state)"

definition erring_state :: hang_source where
  "erring_state =
     fst (decode_frames [(bad_frame_env, 12), (bad_frame_env, 13),
                         (bad_frame_env, 14), (bad_frame_env, 15)] keyed_state)"

text \<open>
  Keyframes that decode to 1920 x 1080 (with and without a scaler to be had) and to
  20000 x 1080.
\<close>

definition resize_env :: decode_env where
  "resize_env = key_frame_env\<lparr>de_frame_width := 1920, de_frame_height := 1080\<rparr>"

definition resize_fail_env :: decode_env where
  "resize_fail_env = resize_env\<lparr>de_sws_getContext := False\<rparr>"

definition huge_frame_env :: decode_env where
  "huge_frame_env = key_frame_env\<lparr>de_frame_width := 20000, de_frame_height := 1080\<rparr>"

text \<open>A transport that refuses the video track, and one that refuses the catalog.\<close>

definition failing_track_env :: catalog_env where
  "failing_track_env = example_catalog_env\<lparr>ct_video_ordered := -1\<rparr>"

definition failing_catalog_env :: session_status_env where
  "failing_catalog_env =
     \<lparr>ss_interleave = no_interleave,
      ss_consume = \<lparr>sc_origin_consume = 3, sc_interleave1 = no_interleave,
                    sc_consume_catalog = -1, sc_interleave2 = no_interleave\<rparr>\<rparr>"

text \<open>A video-frame callback that no other thread interferes with.\<close>

definition undisturbed :: "decode_env \<Rightarrow> video_frame_env" where
  "undisturbed denv = \<lparr>vf_interleave = no_interleave, vf_decode = denv\<rparr>"

section \<open>Properties\<close>

subsection \<open>Auxiliary facts\<close>

lemmas run_defs =
  hang_source_create_def hang_source_update_def hang_source_video_tick_def
  hang_source_reconnect_def hang_source_disconnect_locked_def
  hang_source_destroy_decoder_locked_def close_session_origin_def
  DEBOUNCE_DELAY_MS_def FRAME_WIDTH_def FRAME_HEIGHT_def
  example_tick_env_def no_interleave_def Let_def

lemma connecting_state_eq:
  "connecting_state =
     \<lparr>url = Some ''https://relay'', broadcast = Some ''cam'',
      pending_url = Some ''https://relay'', pending_broadcast = Some ''cam'',
      settings_changed_time = 0, reconnect_pending = False,
      shutting_down = False,
      generation = 1, reconnect_in_progress = False,
      origin = 1, session = 2, consume = -1, catalog_handle = -1, video_track = -1,
      codec_ctx = None, sws_ctx = None,
      got_keyframe = False, frames_waiting_for_keyframe = 0, consecutive_decode_errors = 0,
      frame = \<lparr>width = 1920, height = 1080, linesize0 = 7680, data0 = None, timestamp = 0\<rparr>,
      frame_buffer = None\<rparr>"
  by (simp add: connecting_state_def run_defs)

lemma connect_urls_append: "connect_urls (xs @ ys) = connect_urls xs @ connect_urls ys"
  by (induction xs rule: connect_urls.induct) simp_all

lemma disconnect_quiet:
  "connect_urls (snd (hang_source_disconnect_locked s)) = []"
  "filter reconnect_announced (snd (hang_source_disconnect_locked s)) = []"
  by (simp_all add: hang_source_disconnect_locked_def Let_def split_def connect_urls_append)

lemma disconnect_keeps:
  "url (fst (hang_source_disconnect_locked s)) = url s"
  "broadcast (fst (hang_source_disconnect_locked s)) = broadcast s"
  "generation (fst (hang_source_disconnect_locked s)) = generation s"
  "shutting_down (fst (hang_source_disconnect_locked s)) = shutting_down s"
  "reconnect_in_progress (fst (hang_source_disconnect_locked s)) = reconnect_in_progress s"
  "reconnect_pending (fst (hang_source_disconnect_locked s)) = reconnect_pending s"
  by (simp_all add: hang_source_disconnect_locked_def hang_source_destroy_decoder_locked_def
        Let_def split_def)

lemma reconnect_announces_nothing:
  "filter reconnect_announced (snd (hang_source_reconnect env s)) = []"
  by (simp add: hang_source_reconnect_def Let_def split_def disconnect_quiet
        split: option.splits)

lemma reconnect_connect_urls:
  "connect_urls (snd (hang_source_reconnect env s)) =
     (if reconnect_in_progress s \<or> rc_origin_create env < 0 then []
      else case url s of None \<Rightarrow> [] | Some u \<Rightarrow> [u])"
  by (simp add: hang_source_reconnect_def Let_def split_def disconnect_quiet disconnect_keeps
        connect_urls_append split: option.splits)

lemma update_pending:
  "pending_url (hang_source_update u b t s) = Some u"
  "pending_broadcast (hang_source_update u b t s) = Some b"
  by (auto simp: hang_source_update_def Let_def split: option.splits)

lemma update_time:
  "settings_changed_time (hang_source_update u b t s) =
     (if pending_url s = Some u \<and> pending_broadcast s = Some b
      then settings_changed_time s else t)"
  by (auto simp: hang_source_update_def Let_def split: option.splits)

lemma disconnect_calls:
  "snd (hang_source_disconnect_locked s) =
     (if video_track s \<ge> 0 then [Moq_consume_video_close (video_track s)] else [])
     @ (if catalog_handle s \<ge> 0 then [Moq_consume_catalog_close (catalog_handle s)] else [])
     @ (if consume s \<ge> 0 then [Moq_consume_close (consume s)] else [])
     @ (if session s \<ge> 0 then [Moq_session_close (session s)] else [])
     @ (if origin s \<ge> 0 then [Moq_origin_close (origin s)] else [])"
  by (simp add: hang_source_disconnect_locked_def Let_def split_def)

lemma disconnect_clears:
  "video_track (fst (hang_source_disconnect_locked s)) < 0"
  "catalog_handle (fst (hang_source_disconnect_locked s)) < 0"
  "consume (fst (hang_source_disconnect_locked s)) < 0"
  "session (fst (hang_source_disconnect_locked s)) < 0"
  "origin (fst (hang_source_disconnect_locked s)) < 0"
  "codec_ctx (fst (hang_source_disconnect_locked s)) = None"
  "sws_ctx (fst (hang_source_disconnect_locked s)) = None"
  "frame_buffer (fst (hang_source_disconnect_locked s)) = None"
  "\<not> got_keyframe (fst (hang_source_disconnect_locked s))"
  by (simp_all add: hang_source_disconnect_locked_def hang_source_destroy_decoder_locked_def
        Let_def split_def)

lemma disconnect_creates_nothing:
  "filter creates_handle (snd (hang_source_disconnect_locked s)) = []"
  by (simp add: disconnect_calls)

lemma consuming_state_eq:
  "consuming_state = connecting_state\<lparr>consume := 3\<rparr>"
  by (simp add: consuming_state_def connecting_state_eq on_session_status_def
        hang_source_start_consume_def example_status_env_def no_interleave_def Let_def)

lemma streaming_state_eq:
  "streaming_state =
     \<lparr>url = Some ''https://relay'', broadcast = Some ''cam'',
      pending_url = Some ''https://relay'', pending_broadcast = Some ''cam'',
      settings_changed_time = 0, reconnect_pending = False,
      shutting_down = False,
      generation = 1, reconnect_in_progress = False,
      origin = 1, session = 2, consume = 3, catalog_handle = 5, video_track = 6,
      codec_ctx = Some \<lparr>cwidth = 1280, cheight = 720, extradata = Some [1, 100, 0, 31]\<rparr>,
      sws_ctx = Some (1280, 720),
      got_keyframe = False, frames_waiting_for_keyframe = 0, consecutive_decode_errors = 0,
      frame = \<lparr>width = 1280, height = 720, linesize0 = 5120, data0 = Some 3686400,
               timestamp = 0\<rparr>,
      frame_buffer = Some 3686400\<rparr>"
  by (simp add: streaming_state_def consuming_state_eq connecting_state_eq on_catalog_def
        hang_source_init_decoder_def example_catalog_env_def example_decoder_env_def
        no_interleave_def Let_def)

lemma shut_down_state_eq:
  "shut_down_state =
     \<lparr>url = Some ''https://relay'', broadcast = Some ''cam'',
      pending_url = Some ''https://relay'', pending_broadcast = Some ''cam'',
      settings_changed_time = 0, reconnect_pending = False,
      shutting_down = True,
      generation = 1, reconnect_in_progress = False,
      origin = -1, session = -1, consume = -1, catalog_handle = -1, video_track = -1,
      codec_ctx = None, sws_ctx = None,
      got_keyframe = False, frames_waiting_for_keyframe = 0, consecutive_decode_errors = 0,
      frame = \<lparr>width = 1280, height = 720, linesize0 = 5120, data0 = None, timestamp = 0\<rparr>,
      frame_buffer = None\<rparr>"
  by (simp add: shut_down_state_def streaming_state_eq hang_source_destroy_def
        hang_source_disconnect_locked_def hang_source_destroy_decoder_locked_def Let_def)

lemma shutdown_kept_by_delivery:
  "shutting_down s \<Longrightarrow> shutting_down (fst (deliver e s))"
  by (cases e)
     (simp_all add: hang_source_update_def hang_source_video_tick_def on_session_status_def
        on_catalog_def on_video_frame_def hang_source_destroy_def disconnect_keeps
        split_def Let_def)

lemma run_state_step: "fst (run (e # es) s) = fst (run es (fst (deliver e s)))"
  by (simp add: split_def Let_def)

lemma shutdown_kept_by_run:
  "shutting_down s \<Longrightarrow> shutting_down (fst (run es s))"
proof (induction es arbitrary: s)
  case Nil
  then show ?case by simp
next
  case (Cons e es)
  have "shutting_down (fst (deliver e s))"
    using Cons.prems by (rule shutdown_kept_by_delivery)
  then have "shutting_down (fst (run es (fst (deliver e s))))"
    by (rule Cons.IH)
  then show ?case by (simp only: run_state_step)
qed

lemma discarded_after_shutdown:
  "shutting_down s \<Longrightarrow> is_async e \<Longrightarrow> deliver e s = (s, inbound_close e)"
  by (cases e)
     (simp_all add: hang_source_video_tick_def on_session_status_def on_catalog_def
        on_video_frame_def)

lemma run_discarded_after_shutdown:
  "shutting_down s \<Longrightarrow> \<forall>e \<in> set es. is_async e
   \<Longrightarrow> run es s = (s, concat (map inbound_close es))"
  by (induction es) (simp_all add: discarded_after_shutdown)

lemma output_frames_append:
  "output_frames (xs @ ys) = output_frames xs @ output_frames ys"
  by (induction xs rule: output_frames.induct) simp_all

lemmas decode_defs =
  hang_source_decode_frame_def decode_failure_def convert_and_output_def Let_def split_def

lemma not_five_le_one: "\<not> (5::32 word) \<le> 1"
  by (simp add: word_le_nat_alt)

lemmas outcome_defs =
  reaches_decoder_def keyframe_marked_def keyframe_flush_def genuine_failure_def
  needs_more_input_def allocation_fails_def decodes_def geometry_differs_def
  geometry_out_of_range_def

lemma outcomes_exhaustive:
  "genuine_failure env \<or> needs_more_input env \<or> allocation_fails env \<or> decodes env"
  by (auto simp: outcome_defs)

lemma reached:
  assumes "reaches_decoder env s frame_data"
  obtains c w b where "shutting_down s = False" "codec_ctx s = Some c" "sws_ctx s = Some w"
    "frame_buffer s = Some b" "de_frame_chunk env = Some frame_data"
    "keyframe frame_data \<or> got_keyframe s"
  using assms unfolding reaches_decoder_def by auto

lemma decode_genuine_failure:
  assumes "reaches_decoder env s frame_data" and "genuine_failure env"
    and "s1 = keyframe_marked frame_data s"
  shows "hang_source_decode_frame env frame_id s =
           (if 5 \<le> consecutive_decode_errors s1 + 1
            then (s1\<lparr>got_keyframe := False, consecutive_decode_errors := 0\<rparr>,
                  keyframe_flush frame_data s
                    @ [Avcodec_flush_buffers, Moq_consume_frame_close frame_id])
            else (s1\<lparr>consecutive_decode_errors := consecutive_decode_errors s1 + 1\<rparr>,
                  keyframe_flush frame_data s @ [Moq_consume_frame_close frame_id]))"
proof -
  from assms(1) obtain c w b where r: "shutting_down s = False" "codec_ctx s = Some c"
    "sws_ctx s = Some w" "frame_buffer s = Some b" "de_frame_chunk env = Some frame_data"
    "keyframe frame_data \<or> got_keyframe s"
    by (rule reached)
  have pa: "de_packet_alloc env"
    using assms(2) by (simp add: genuine_failure_def)
  consider (send) "de_send_packet env < 0" "de_send_packet env \<noteq> de_averror_eagain env"
    | (recv) "\<not> de_send_packet env < 0" "de_frame_alloc env" "de_receive_frame env < 0"
        "de_receive_frame env \<noteq> de_averror_eagain env"
    using assms(2) by (auto simp: genuine_failure_def)
  then show ?thesis
  proof cases
    case send
    show ?thesis
    proof (cases "keyframe frame_data")
      case True
      then show ?thesis
        using send pa r(1-5) assms(3)
        by (simp add: hang_source_decode_frame_def decode_failure_def keyframe_marked_def
              keyframe_flush_def not_five_le_one Let_def)
    next
      case False
      then have "got_keyframe s" using r(6) by simp
      then show ?thesis
        using send pa r(1-5) False assms(3)
        by (simp add: hang_source_decode_frame_def decode_failure_def keyframe_marked_def
              keyframe_flush_def not_five_le_one Let_def)
    qed
  next
    case recv
    show ?thesis
    proof (cases "keyframe frame_data")
      case True
      then show ?thesis
        using recv pa r(1-5) assms(3)
        by (simp add: hang_source_decode_frame_def decode_failure_def keyframe_marked_def
              keyframe_flush_def not_five_le_one Let_def)
    next
      case False
      then have "got_keyframe s" using r(6) by simp
      then show ?thesis
        using recv pa r(1-5) False assms(3)
        by (simp add: hang_source_decode_frame_def decode_failure_def keyframe_marked_def
              keyframe_flush_def not_five_le_one Let_def)
    qed
  qed
qed

lemma decode_needs_more_input:
  assumes "reaches_decoder env s frame_data" and "needs_more_input env"
  shows "hang_source_decode_frame env frame_id s =
           (keyframe_marked frame_data s,
            keyframe_flush frame_data s @ [Moq_consume_frame_close frame_id])"
proof -
  from assms(1) obtain c w b where r: "shutting_down s = False" "codec_ctx s = Some c"
    "sws_ctx s = Some w" "frame_buffer s = Some b" "de_frame_chunk env = Some frame_data"
    "keyframe frame_data \<or> got_keyframe s"
    by (rule reached)
  have pa: "de_packet_alloc env"
    using assms(2) by (simp add: needs_more_input_def)
  consider (send) "de_send_packet env < 0" "de_send_packet env = de_averror_eagain env"
    | (recv) "\<not> de_send_packet env < 0" "de_frame_alloc env" "de_receive_frame env < 0"
        "de_receive_frame env = de_averror_eagain env"
    using assms(2) by (auto simp: needs_more_input_def)
  then show ?thesis
  proof cases
    case send
    show ?thesis
    proof (cases "keyframe frame_data")
      case True
      then show ?thesis
        using send pa r(1-5) 
        by (simp add: hang_source_decode_frame_def decode_failure_def keyframe_marked_def
              keyframe_flush_def not_five_le_one Let_def)
    next
      case False
      then have "got_keyframe s" using r(6) by simp
      then show ?thesis
        using send pa r(1-5) False 
        by (simp add: hang_source_decode_frame_def decode_failure_def keyframe_marked_def
              keyframe_flush_def not_five_le_one Let_def)
    qed
  next
    case recv
    show ?thesis
    proof (cases "keyframe frame_data")
      case True
      then show ?thesis
        using recv pa r(1-5) 
        by (simp add: hang_source_decode_frame_def decode_failure_def keyframe_marked_def
              keyframe_flush_def not_five_le_one Let_def)
    next
      case False
      then have "got_keyframe s" using r(6) by simp
      then show ?thesis
        using recv pa r(1-5) False 
        by (simp add: hang_source_decode_frame_def decode_failure_def keyframe_marked_def
              keyframe_flush_def not_five_le_one Let_def)
    qed
  qed
qed

lemma decode_allocation_fails:
  assumes "reaches_decoder env s frame_data" and "allocation_fails env"
  shows "hang_source_decode_frame env frame_id s =
           (keyframe_marked frame_data s,
            keyframe_flush frame_data s @ [Moq_consume_frame_close frame_id])"
proof -
  from assms(1) obtain c w b where r: "shutting_down s = False" "codec_ctx s = Some c"
    "sws_ctx s = Some w" "frame_buffer s = Some b" "de_frame_chunk env = Some frame_data"
    "keyframe frame_data \<or> got_keyframe s"
    by (rule reached)
  show ?thesis
  proof (cases "keyframe frame_data")
    case True
    then show ?thesis
      using assms(2-) r(1-5)
      by (auto simp: hang_source_decode_frame_def decode_failure_def convert_and_output_def
            outcome_defs not_five_le_one Let_def)
  next
    case False
    then have "got_keyframe s" using r(6) by simp
    then show ?thesis
      using assms(2-) r(1-5) False
      by (auto simp: hang_source_decode_frame_def decode_failure_def convert_and_output_def
            outcome_defs not_five_le_one Let_def)
  qed
qed

lemma decode_same_geometry:
  assumes "reaches_decoder env s frame_data" and "decodes env"
    and "\<not> geometry_differs env s"
    and "s2 = (keyframe_marked frame_data s)\<lparr>consecutive_decode_errors := 0\<rparr>"
    and "f = (frame s)\<lparr>timestamp := timestamp_us frame_data\<rparr>"
  shows "hang_source_decode_frame env frame_id s =
           (s2\<lparr>frame := f\<rparr>,
            keyframe_flush frame_data s
              @ [Sws_scale, Obs_source_output_video (Some f),
                 Moq_consume_frame_close frame_id])"
proof -
  from assms(1) obtain c w b where r: "shutting_down s = False" "codec_ctx s = Some c"
    "sws_ctx s = Some w" "frame_buffer s = Some b" "de_frame_chunk env = Some frame_data"
    "keyframe frame_data \<or> got_keyframe s"
    by (rule reached)
  show ?thesis
  proof (cases "keyframe frame_data")
    case True
    then show ?thesis
      using assms(2-) r(1-5)
      by (auto simp: hang_source_decode_frame_def decode_failure_def convert_and_output_def
            outcome_defs not_five_le_one Let_def)
  next
    case False
    then have "got_keyframe s" using r(6) by simp
    then show ?thesis
      using assms(2-) r(1-5) False
      by (auto simp: hang_source_decode_frame_def decode_failure_def convert_and_output_def
            outcome_defs not_five_le_one Let_def)
  qed
qed

lemma decode_geometry_rejected:
  assumes "reaches_decoder env s frame_data" and "decodes env"
    and "geometry_differs env s" and "geometry_out_of_range env"
  shows "hang_source_decode_frame env frame_id s =
           ((keyframe_marked frame_data s)\<lparr>consecutive_decode_errors := 0\<rparr>,
            keyframe_flush frame_data s @ [Moq_consume_frame_close frame_id])"
proof -
  from assms(1) obtain c w b where r: "shutting_down s = False" "codec_ctx s = Some c"
    "sws_ctx s = Some w" "frame_buffer s = Some b" "de_frame_chunk env = Some frame_data"
    "keyframe frame_data \<or> got_keyframe s"
    by (rule reached)
  show ?thesis
  proof (cases "keyframe frame_data")
    case True
    then show ?thesis
      using assms(2-) r(1-5)
      by (simp add: hang_source_decode_frame_def decode_failure_def convert_and_output_def
            outcome_defs not_five_le_one Let_def)
  next
    case False
    then have "got_keyframe s" using r(6) by simp
    then show ?thesis
      using assms(2-) r(1-5) False
      by (simp add: hang_source_decode_frame_def decode_failure_def convert_and_output_def
            outcome_defs not_five_le_one Let_def)
  qed
qed

lemma decode_resize_fails:
  assumes "reaches_decoder env s frame_data" and "decodes env"
    and "geometry_differs env s" and "\<not> geometry_out_of_range env"
    and "\<not> de_sws_getContext env \<or> \<not> de_bmalloc env"
  shows "hang_source_decode_frame env frame_id s =
           ((keyframe_marked frame_data s)\<lparr>consecutive_decode_errors := 0, sws_ctx := None\<rparr>,
            keyframe_flush frame_data s @ [Moq_consume_frame_close frame_id])"
proof -
  from assms(1) obtain c w b where r: "shutting_down s = False" "codec_ctx s = Some c"
    "sws_ctx s = Some w" "frame_buffer s = Some b" "de_frame_chunk env = Some frame_data"
    "keyframe frame_data \<or> got_keyframe s"
    by (rule reached)
  show ?thesis
  proof (cases "keyframe frame_data")
    case True
    then show ?thesis
      using assms(2-) r(1-5)
      by (auto simp: hang_source_decode_frame_def decode_failure_def convert_and_output_def
            outcome_defs not_five_le_one Let_def)
  next
    case False
    then have "got_keyframe s" using r(6) by simp
    then show ?thesis
      using assms(2-) r(1-5) False
      by (auto simp: hang_source_decode_frame_def decode_failure_def convert_and_output_def
            outcome_defs not_five_le_one Let_def)
  qed
qed

lemma decode_resized:
  assumes "reaches_decoder env s frame_data" and "decodes env"
    and "geometry_differs env s" and "\<not> geometry_out_of_range env"
    and "de_sws_getContext env" and "de_bmalloc env"
    and "fw = de_frame_width env" and "fh = de_frame_height env"
    and "f = \<lparr>width = word_of_int fw, height = word_of_int fh,
              linesize0 = word_of_int (fw * 4), data0 = Some (nat fw * nat fh * 4),
              timestamp = timestamp_us frame_data\<rparr>"
  shows "hang_source_decode_frame env frame_id s =
           ((keyframe_marked frame_data s)
              \<lparr>consecutive_decode_errors := 0,
               sws_ctx := Some (fw, fh),
               frame_buffer := Some (nat fw * nat fh * 4),
               frame := f\<rparr>,
            keyframe_flush frame_data s
              @ [Sws_scale, Obs_source_output_video (Some f),
                 Moq_consume_frame_close frame_id])"
proof -
  from assms(1) obtain c w b where r: "shutting_down s = False" "codec_ctx s = Some c"
    "sws_ctx s = Some w" "frame_buffer s = Some b" "de_frame_chunk env = Some frame_data"
    "keyframe frame_data \<or> got_keyframe s"
    by (rule reached)
  show ?thesis
  proof (cases "keyframe frame_data")
    case True
    then show ?thesis
      using assms(2-) r(1-5)
      by (simp add: hang_source_decode_frame_def decode_failure_def convert_and_output_def
            outcome_defs not_five_le_one Let_def)
  next
    case False
    then have "got_keyframe s" using r(6) by simp
    then show ?thesis
      using assms(2-) r(1-5) False
      by (simp add: hang_source_decode_frame_def decode_failure_def convert_and_output_def
            outcome_defs not_five_le_one Let_def)
  qed
qed

lemma decode_waits_for_keyframe:
  assumes "\<not> got_keyframe s" and "\<not> carries_keyframe env"
  shows "output_frames (snd (hang_source_decode_frame env frame_id s)) = []"
    and "\<not> got_keyframe (fst (hang_source_decode_frame env frame_id s))"
proof -
  have "output_frames (snd (hang_source_decode_frame env frame_id s)) = []
        \<and> \<not> got_keyframe (fst (hang_source_decode_frame env frame_id s))"
  proof (cases "shutting_down s \<or> codec_ctx s = None \<or> sws_ctx s = None
                \<or> frame_buffer s = None")
    case True
    then show ?thesis
      using assms(1) by (auto simp: hang_source_decode_frame_def)
  next
    case False
    show ?thesis
    proof (cases "de_frame_chunk env")
      case None
      then show ?thesis
        using False assms(1) by (auto simp: hang_source_decode_frame_def)
    next
      case (Some frame_data)
      then have "\<not> keyframe frame_data"
        using assms(2) by (simp add: carries_keyframe_def)
      then show ?thesis
        using False Some assms(1) by (auto simp: hang_source_decode_frame_def)
    qed
  qed
  then show "output_frames (snd (hang_source_decode_frame env frame_id s)) = []"
    and "\<not> got_keyframe (fst (hang_source_decode_frame env frame_id s))"
    by simp_all
qed

lemma decode_frames_wait_for_keyframe:
  "\<not> got_keyframe s \<Longrightarrow> \<forall>f \<in> set fs. \<not> carries_keyframe (fst f)
   \<Longrightarrow> output_frames (snd (decode_frames fs s)) = []
       \<and> \<not> got_keyframe (fst (decode_frames fs s))"
proof (induction fs arbitrary: s)
  case Nil
  then show ?case by simp
next
  case (Cons f fs)
  obtain env frame_id where f: "f = (env, frame_id)" by (cases f)
  have nk: "\<not> carries_keyframe env" using Cons.prems(2) f by simp
  let ?s1 = "fst (hang_source_decode_frame env frame_id s)"
  have w: "\<not> got_keyframe ?s1"
    and o: "output_frames (snd (hang_source_decode_frame env frame_id s)) = []"
    using decode_waits_for_keyframe [OF Cons.prems(1) nk] by simp_all
  have rest: "output_frames (snd (decode_frames fs ?s1)) = []
       \<and> \<not> got_keyframe (fst (decode_frames fs ?s1))"
    using Cons.IH [OF w] Cons.prems(2) by simp
  show ?case
    using rest o by (simp add: f split_def Let_def output_frames_append)
qed

lemma decode_early:
  assumes "\<And>frame_data. \<not> reaches_decoder env s frame_data"
  shows "hang_source_decode_frame env frame_id s = (s, [Moq_consume_frame_close frame_id])
         \<or> hang_source_decode_frame env frame_id s =
             (s\<lparr>frames_waiting_for_keyframe := frames_waiting_for_keyframe s + 1\<rparr>,
              [Moq_consume_frame_close frame_id])"
proof (cases "shutting_down s \<or> codec_ctx s = None \<or> sws_ctx s = None \<or> frame_buffer s = None")
  case True
  have "hang_source_decode_frame env frame_id s = (s, [Moq_consume_frame_close frame_id])"
    using True by (auto simp: hang_source_decode_frame_def)
  then show ?thesis by (rule disjI1)
next
  case False
  show ?thesis
  proof (cases "de_frame_chunk env")
    case None
    have "hang_source_decode_frame env frame_id s = (s, [Moq_consume_frame_close frame_id])"
      using False None by (auto simp: hang_source_decode_frame_def)
    then show ?thesis by (rule disjI1)
  next
    case (Some frame_data)
    have w: "\<not> got_keyframe s \<and> \<not> keyframe frame_data"
      using assms [of frame_data] False Some by (auto simp: reaches_decoder_def)
    have "hang_source_decode_frame env frame_id s =
             (s\<lparr>frames_waiting_for_keyframe := frames_waiting_for_keyframe s + 1\<rparr>,
              [Moq_consume_frame_close frame_id])"
      using False Some w by (auto simp: hang_source_decode_frame_def)
    then show ?thesis by (rule disjI2)
  qed
qed

lemma same_connection_marked:
  "same_connection s (keyframe_marked frame_data s)"
  "same_connection s ((keyframe_marked frame_data s)\<lparr>consecutive_decode_errors := n\<rparr>)"
  "same_connection s ((keyframe_marked frame_data s)
      \<lparr>got_keyframe := g, consecutive_decode_errors := n\<rparr>)"
  "same_connection s ((keyframe_marked frame_data s)\<lparr>consecutive_decode_errors := n, frame := f\<rparr>)"
  "same_connection s ((keyframe_marked frame_data s)\<lparr>consecutive_decode_errors := n, sws_ctx := w\<rparr>)"
  "same_connection s ((keyframe_marked frame_data s)
      \<lparr>consecutive_decode_errors := n, sws_ctx := w, frame_buffer := b, frame := f\<rparr>)"
  "same_connection s s"
  "same_connection s (s\<lparr>frames_waiting_for_keyframe := k\<rparr>)"
  by (simp_all add: same_connection_def keyframe_marked_def)

lemma flush_is_quiet:
  "filter is_frame_close (keyframe_flush frame_data s) = []"
  "filter closes_chain (keyframe_flush frame_data s) = []"
  "output_frames (keyframe_flush frame_data s) = []"
  by (simp_all add: keyframe_flush_def)

lemma decode_shape:
  "filter is_frame_close (snd (hang_source_decode_frame env frame_id s))
     = [Moq_consume_frame_close frame_id]
   \<and> filter closes_chain (snd (hang_source_decode_frame env frame_id s)) = []
   \<and> same_connection s (fst (hang_source_decode_frame env frame_id s))
   \<and> last (snd (hang_source_decode_frame env frame_id s)) = Moq_consume_frame_close frame_id"
proof (cases "\<exists>frame_data. reaches_decoder env s frame_data")
  case False
  then have "\<And>frame_data. \<not> reaches_decoder env s frame_data" by blast
  from decode_early [OF this, of frame_id] show ?thesis
  proof
    assume "hang_source_decode_frame env frame_id s = (s, [Moq_consume_frame_close frame_id])"
    then show ?thesis by (simp add: same_connection_marked)
  next
    assume "hang_source_decode_frame env frame_id s =
             (s\<lparr>frames_waiting_for_keyframe := frames_waiting_for_keyframe s + 1\<rparr>,
              [Moq_consume_frame_close frame_id])"
    then show ?thesis by (simp add: same_connection_marked)
  qed
next
  case True
  then obtain frame_data where r: "reaches_decoder env s frame_data" by blast
  consider (fail) "genuine_failure env" | (more) "needs_more_input env"
    | (alloc) "allocation_fails env"
    | (same) "decodes env" "\<not> geometry_differs env s"
    | (rejected) "decodes env" "geometry_differs env s" "geometry_out_of_range env"
    | (unsized) "decodes env" "geometry_differs env s" "\<not> geometry_out_of_range env"
        "\<not> de_sws_getContext env \<or> \<not> de_bmalloc env"
    | (resized) "decodes env" "geometry_differs env s" "\<not> geometry_out_of_range env"
        "de_sws_getContext env" "de_bmalloc env"
    using outcomes_exhaustive [of env] by blast
  then show ?thesis
  proof cases
    case fail
    show ?thesis
      by (simp add: decode_genuine_failure [OF r fail refl] same_connection_marked flush_is_quiet)
  next
    case more
    show ?thesis
      by (simp add: decode_needs_more_input [OF r more] same_connection_marked flush_is_quiet)
  next
    case alloc
    show ?thesis
      by (simp add: decode_allocation_fails [OF r alloc] same_connection_marked flush_is_quiet)
  next
    case same
    show ?thesis
      by (simp add: decode_same_geometry [OF r same refl refl] same_connection_marked flush_is_quiet)
  next
    case rejected
    show ?thesis
      by (simp add: decode_geometry_rejected [OF r rejected] same_connection_marked flush_is_quiet)
  next
    case unsized
    show ?thesis
      by (simp add: decode_resize_fails [OF r unsized] same_connection_marked flush_is_quiet)
  next
    case resized
    show ?thesis
      by (simp add: decode_resized [OF r resized refl refl refl] same_connection_marked flush_is_quiet)
  qed
qed

lemma decode_keyframe_sets_flag:
  assumes r: "reaches_decoder env s frame_data" and k: "keyframe frame_data"
  shows "got_keyframe (fst (hang_source_decode_frame env frame_id s))
       \<and> frames_waiting_for_keyframe (fst (hang_source_decode_frame env frame_id s)) = 0"
proof -
  have m: "got_keyframe (keyframe_marked frame_data s)"
    "frames_waiting_for_keyframe (keyframe_marked frame_data s) = 0"
    "consecutive_decode_errors (keyframe_marked frame_data s) = 0"
    using k by (simp_all add: keyframe_marked_def)
  consider (fail) "genuine_failure env" | (more) "needs_more_input env"
    | (alloc) "allocation_fails env"
    | (same) "decodes env" "\<not> geometry_differs env s"
    | (rejected) "decodes env" "geometry_differs env s" "geometry_out_of_range env"
    | (unsized) "decodes env" "geometry_differs env s" "\<not> geometry_out_of_range env"
        "\<not> de_sws_getContext env \<or> \<not> de_bmalloc env"
    | (resized) "decodes env" "geometry_differs env s" "\<not> geometry_out_of_range env"
        "de_sws_getContext env" "de_bmalloc env"
    using outcomes_exhaustive [of env] by blast
  then show ?thesis
  proof cases
    case fail
    show ?thesis
      by (simp add: decode_genuine_failure [OF r fail refl] m not_five_le_one)
  next
    case more
    show ?thesis
      by (simp add: decode_needs_more_input [OF r more] m)
  next
    case alloc
    show ?thesis
      by (simp add: decode_allocation_fails [OF r alloc] m)
  next
    case same
    show ?thesis
      by (simp add: decode_same_geometry [OF r same refl refl] m)
  next
    case rejected
    show ?thesis
      by (simp add: decode_geometry_rejected [OF r rejected] m)
  next
    case unsized
    show ?thesis
      by (simp add: decode_resize_fails [OF r unsized] m)
  next
    case resized
    show ?thesis
      by (simp add: decode_resized [OF r resized refl refl refl] m)
  qed
qed

lemma sint_of_geometry:
  assumes "0 < x" and "x \<le> 16384"
  shows "sint (word_of_int x :: 32 word) = x"
proof -
  have "- (2 ^ 31) \<le> x" "x < 2 ^ 31"
    using assms by simp_all
  then have "signed_take_bit 31 x = x"
    by (rule signed_take_bit_int_eq_self)
  then show ?thesis
    by (simp add: signed_of_int)
qed

lemma keyed_state_eq:
  "keyed_state =
     streaming_state
       \<lparr>got_keyframe := True,
        frame := \<lparr>width = 1280, height = 720, linesize0 = 5120, data0 = Some 3686400,
                  timestamp = 66000\<rparr>\<rparr>"
  by (simp add: keyed_state_def streaming_state_eq key_frame_env_def delta_frame_env_def
        decode_defs)

lemma erring_state_eq:
  "erring_state = keyed_state\<lparr>consecutive_decode_errors := 4\<rparr>"
  by (simp add: erring_state_def keyed_state_eq streaming_state_eq bad_frame_env_def
        delta_frame_env_def decode_defs not_five_le_one)

lemma video_frame_closes_once:
  assumes "frame_id \<ge> 0"
  shows "filter is_frame_close (snd (on_video_frame env frame_id s))
           = [Moq_consume_frame_close frame_id]"
proof (cases "shutting_down s \<or> consume s < 0")
  case True
  then show ?thesis
    using assms by (auto simp: on_video_frame_def)
next
  case False
  then have "on_video_frame env frame_id s =
               hang_source_decode_frame (vf_decode env) frame_id (vf_interleave env s)"
    using assms by (simp add: on_video_frame_def)
  then show ?thesis
    using decode_shape [of "vf_decode env" frame_id "vf_interleave env s"] by simp
qed

subsection \<open>The debounced tick\<close>

text \<open>
  C1, as the code has it. Let \<open>s\<close> be the state after any sequence of settings updates
  that ends with the update to \<open>(u, b)\<close> at time \<open>t\<close>. Then the pending values are
  \<open>u\<close> and \<open>b\<close>, the last written ones. The debounce clock \<open>settings_changed_time\<close>
  is \<open>t\<close> when that update changed a pending value and is left as it was when it
  changed none. The tick does nothing at all (no call, state untouched) while
  \<open>shutting_down\<close> is set, while \<open>reconnect_pending\<close> is false, or while fewer than
  500 ms have passed on that clock. Otherwise it clears \<open>reconnect_pending\<close> and
  \<^item> does nothing more when \<open>(u, b)\<close> is the active configuration;
  \<^item> when \<open>(u, b)\<close> differs from the active configuration and both strings are
    non-empty, adopts them, announces one reconnect to \<open>u\<close> and \<open>b\<close> and calls the
    reconnect operation once on that state; the calls made contain exactly one such
    announcement, and (the url being left alone by other threads meanwhile) one session
    connect, to \<open>u\<close>, unless the reconnect finds another one in progress or gets no
    origin.
  The case of an empty string is the subject of C8.
\<close>

theorem tick_debounce:
  assumes s: "s = hang_source_update u b t (run_updates us s0)"
      and s2: "s2 = s\<lparr>reconnect_pending := False, url := Some u, broadcast := Some b\<rparr>"
  shows "pending_url s = Some u \<and> pending_broadcast s = Some b
    \<and> settings_changed_time s =
        (if pending_url (run_updates us s0) = Some u
            \<and> pending_broadcast (run_updates us s0) = Some b
         then settings_changed_time (run_updates us s0) else t)
    \<and> (shutting_down s \<or> \<not> reconnect_pending s
         \<or> (now - settings_changed_time s) div 1000000 < DEBOUNCE_DELAY_MS
       \<longrightarrow> hang_source_video_tick env now s = (s, []))
    \<and> (\<not> shutting_down s \<and> reconnect_pending s
         \<and> \<not> (now - settings_changed_time s) div 1000000 < DEBOUNCE_DELAY_MS
       \<longrightarrow> (url s = Some u \<and> broadcast s = Some b
              \<longrightarrow> hang_source_video_tick env now s = (s\<lparr>reconnect_pending := False\<rparr>, []))
          \<and> (\<not> (url s = Some u \<and> broadcast s = Some b) \<and> u \<noteq> [] \<and> b \<noteq> []
              \<longrightarrow> hang_source_video_tick env now s =
                    (fst (hang_source_reconnect (tk_reconnect env) (tk_interleave env s2)),
                     Log_info_reconnecting u b
                       # snd (hang_source_reconnect (tk_reconnect env) (tk_interleave env s2)))
                  \<and> filter reconnect_announced (snd (hang_source_video_tick env now s))
                      = [Log_info_reconnecting u b]
                  \<and> (url (tk_interleave env s2) = Some u \<longrightarrow>
                       connect_urls (snd (hang_source_video_tick env now s))
                         = (if reconnect_in_progress (tk_interleave env s2)
                               \<or> rc_origin_create (tk_reconnect env) < 0 then [] else [u]))))"
proof -
  have p: "pending_url s = Some u \<and> pending_broadcast s = Some b"
    by (simp add: s update_pending)
  have tm: "settings_changed_time s =
        (if pending_url (run_updates us s0) = Some u
            \<and> pending_broadcast (run_updates us s0) = Some b
         then settings_changed_time (run_updates us s0) else t)"
    unfolding s by (rule update_time)
  have quiet: "hang_source_video_tick env now s = (s, [])"
    if "shutting_down s \<or> \<not> reconnect_pending s
         \<or> (now - settings_changed_time s) div 1000000 < DEBOUNCE_DELAY_MS"
    using that by (auto simp: hang_source_video_tick_def Let_def)
  have same: "hang_source_video_tick env now s = (s\<lparr>reconnect_pending := False\<rparr>, [])"
    if "\<not> shutting_down s" "reconnect_pending s"
       "\<not> (now - settings_changed_time s) div 1000000 < DEBOUNCE_DELAY_MS"
       "url s = Some u \<and> broadcast s = Some b"
    using that p by (simp add: hang_source_video_tick_def Let_def)
  have eq: "hang_source_video_tick env now s =
               (fst (hang_source_reconnect (tk_reconnect env) (tk_interleave env s2)),
                Log_info_reconnecting u b
                  # snd (hang_source_reconnect (tk_reconnect env) (tk_interleave env s2)))"
    if "\<not> shutting_down s" "reconnect_pending s"
       "\<not> (now - settings_changed_time s) div 1000000 < DEBOUNCE_DELAY_MS"
       "\<not> (url s = Some u \<and> broadcast s = Some b)" "u \<noteq> [] \<and> b \<noteq> []"
    using that p
    by (auto simp: hang_source_video_tick_def Let_def split_def s2 split: option.splits)
  have once: "filter reconnect_announced (snd (hang_source_video_tick env now s))
                 = [Log_info_reconnecting u b]
             \<and> (url (tk_interleave env s2) = Some u \<longrightarrow>
                  connect_urls (snd (hang_source_video_tick env now s))
                    = (if reconnect_in_progress (tk_interleave env s2)
                          \<or> rc_origin_create (tk_reconnect env) < 0 then [] else [u]))"
    if "\<not> shutting_down s" "reconnect_pending s"
       "\<not> (now - settings_changed_time s) div 1000000 < DEBOUNCE_DELAY_MS"
       "\<not> (url s = Some u \<and> broadcast s = Some b)" "u \<noteq> [] \<and> b \<noteq> []"
    by (simp add: eq [OF that] reconnect_announces_nothing reconnect_connect_urls)
  show ?thesis
    using p tm quiet same eq once by blast
qed

text \<open>
  The url typed in three steps at 0, 100 and 200 ms: a tick at 400 ms does nothing, a
  tick at 700 ms finds the hypotheses of the reconnecting case true and connects once,
  to the url written last.
\<close>

theorem tick_debounce_witness:
  "(400000000 - settings_changed_time typed_state) div 1000000 < DEBOUNCE_DELAY_MS
   \<and> hang_source_video_tick example_tick_env 400000000 typed_state = (typed_state, [])
   \<and> \<not> shutting_down typed_state \<and> reconnect_pending typed_state
   \<and> \<not> (700000000 - settings_changed_time typed_state) div 1000000 < DEBOUNCE_DELAY_MS
   \<and> \<not> (url typed_state = Some ''https://relay'' \<and> broadcast typed_state = Some ''cam'')
   \<and> snd (hang_source_video_tick example_tick_env 700000000 typed_state)
       = [Log_info_reconnecting ''https://relay'' ''cam'', Obs_source_output_video None,
          Os_sleep_ms 50, Moq_origin_create, Moq_session_connect ''https://relay'' 1]
   \<and> connect_urls (snd (hang_source_video_tick example_tick_env 700000000 typed_state))
       = [''https://relay'']"
  using tick_debounce [OF typed_state_def refl, of 400000000 example_tick_env]
        tick_debounce [OF typed_state_def refl, of 700000000 example_tick_env]
  by (simp add: typed_state_def typing_updates_def hang_source_create_def
        hang_source_update_def hang_source_reconnect_def hang_source_disconnect_locked_def
        hang_source_destroy_decoder_locked_def DEBOUNCE_DELAY_MS_def FRAME_WIDTH_def
        FRAME_HEIGHT_def example_tick_env_def no_interleave_def Let_def)

text \<open>
  C1 as stated fails twice. With an empty url pending, different from the active
  configuration, the tick after the window issues no reconnect at all, only the blank
  signal. And an update that writes the pending values again does not restart the clock:
  100 ms after such an update the tick reconnects.
\<close>

theorem tick_debounce_counterexample:
  "\<not> shutting_down blank_config_state \<and> reconnect_pending blank_config_state
   \<and> \<not> (600000000 - settings_changed_time blank_config_state) div 1000000 < DEBOUNCE_DELAY_MS
   \<and> (url blank_config_state, broadcast blank_config_state)
       \<noteq> (pending_url blank_config_state, pending_broadcast blank_config_state)
   \<and> snd (hang_source_video_tick example_tick_env 600000000 blank_config_state)
       = [Obs_source_output_video None]
   \<and> (500000000 - 400000000 :: 64 word) div 1000000 < DEBOUNCE_DELAY_MS
   \<and> snd (hang_source_video_tick example_tick_env 500000000 retyped_state)
       = [Log_info_reconnecting ''https://relay'' ''cam'', Obs_source_output_video None,
          Os_sleep_ms 50, Moq_origin_create, Moq_session_connect ''https://relay'' 1]"
  by (simp add: blank_config_state_def retyped_state_def run_defs)

subsection \<open>Waiting for a keyframe\<close>

text \<open>
  C2. In a state where \<open>got_keyframe\<close> is false:
  \<^item> a frame that is not a keyframe (or cannot be fetched) produces no output frame and
    leaves \<open>got_keyframe\<close> false, on every path;
  \<^item> when the frame gets as far as the keyframe check (no shutdown, the decoder is there,
    the chunk is fetched) and is not a keyframe, the whole effect is that
    \<open>frames_waiting_for_keyframe\<close> is incremented by one (a \<^verbatim>\<open>uint32_t\<close>) and the frame
    handle is closed;
  \<^item> when it is a keyframe, \<open>got_keyframe\<close> is true and
    \<open>frames_waiting_for_keyframe\<close> is zero when the function returns, whatever the decoder
    then does with the frame;
  \<^item> so no sequence of frames without a keyframe produces an output frame;
  \<^item> and a successful decoder initialization leaves \<open>got_keyframe\<close> false and the
    counter at zero.
\<close>

theorem keyframe_gate:
  assumes "\<not> got_keyframe s"
  shows "(\<not> carries_keyframe env \<longrightarrow>
            output_frames (snd (hang_source_decode_frame env frame_id s)) = []
            \<and> \<not> got_keyframe (fst (hang_source_decode_frame env frame_id s)))
    \<and> (\<not> shutting_down s \<and> codec_ctx s \<noteq> None \<and> sws_ctx s \<noteq> None \<and> frame_buffer s \<noteq> None
         \<and> de_frame_chunk env = Some frame_data \<longrightarrow>
         (\<not> keyframe frame_data \<longrightarrow>
            hang_source_decode_frame env frame_id s =
              (s\<lparr>frames_waiting_for_keyframe := frames_waiting_for_keyframe s + 1\<rparr>,
               [Moq_consume_frame_close frame_id]))
         \<and> (keyframe frame_data \<longrightarrow>
              got_keyframe (fst (hang_source_decode_frame env frame_id s))
              \<and> frames_waiting_for_keyframe (fst (hang_source_decode_frame env frame_id s)) = 0))
    \<and> ((\<forall>f \<in> set fs. \<not> carries_keyframe (fst f)) \<longrightarrow>
          output_frames (snd (decode_frames fs s)) = []
          \<and> \<not> got_keyframe (fst (decode_frames fs s)))
    \<and> (\<forall>s'. hang_source_init_decoder denv config s0 = Some s' \<longrightarrow>
          \<not> got_keyframe s' \<and> frames_waiting_for_keyframe s' = 0)"
proof -
  have a: "\<not> carries_keyframe env \<longrightarrow>
            output_frames (snd (hang_source_decode_frame env frame_id s)) = []
            \<and> \<not> got_keyframe (fst (hang_source_decode_frame env frame_id s))"
    using decode_waits_for_keyframe [OF assms] by simp
  have b: "hang_source_decode_frame env frame_id s =
              (s\<lparr>frames_waiting_for_keyframe := frames_waiting_for_keyframe s + 1\<rparr>,
               [Moq_consume_frame_close frame_id])"
    if "\<not> shutting_down s" "codec_ctx s \<noteq> None" "sws_ctx s \<noteq> None" "frame_buffer s \<noteq> None"
       "de_frame_chunk env = Some frame_data" "\<not> keyframe frame_data"
    using that assms by (auto simp: hang_source_decode_frame_def)
  have c: "got_keyframe (fst (hang_source_decode_frame env frame_id s))
        \<and> frames_waiting_for_keyframe (fst (hang_source_decode_frame env frame_id s)) = 0"
    if "\<not> shutting_down s" "codec_ctx s \<noteq> None" "sws_ctx s \<noteq> None" "frame_buffer s \<noteq> None"
       "de_frame_chunk env = Some frame_data" "keyframe frame_data"
  proof -
    have "reaches_decoder env s frame_data"
      using that by (simp add: reaches_decoder_def)
    then show ?thesis
      using that(6) by (rule decode_keyframe_sets_flag)
  qed
  have d: "(\<forall>f \<in> set fs. \<not> carries_keyframe (fst f)) \<longrightarrow>
          output_frames (snd (decode_frames fs s)) = []
          \<and> \<not> got_keyframe (fst (decode_frames fs s))"
    using decode_frames_wait_for_keyframe [OF assms] by blast
  have e: "\<forall>s'. hang_source_init_decoder denv config s0 = Some s' \<longrightarrow>
          \<not> got_keyframe s' \<and> frames_waiting_for_keyframe s' = 0"
    by (auto simp: hang_source_init_decoder_def Let_def split_def split: if_splits)
  show ?thesis
    using a b c d e by blast
qed

text \<open>
  The streaming source before its first keyframe: the delta frame 10 is dropped and
  counted, two delta frames in a row give no output, the keyframe 11 sets the flag.
\<close>

theorem keyframe_gate_witness:
  "\<not> got_keyframe streaming_state \<and> \<not> carries_keyframe delta_frame_env
   \<and> \<not> shutting_down streaming_state \<and> codec_ctx streaming_state \<noteq> None
   \<and> sws_ctx streaming_state \<noteq> None \<and> frame_buffer streaming_state \<noteq> None
   \<and> hang_source_decode_frame delta_frame_env 10 streaming_state
       = (streaming_state\<lparr>frames_waiting_for_keyframe := 1\<rparr>, [Moq_consume_frame_close 10])
   \<and> output_frames (snd (decode_frames [(delta_frame_env, 10), (delta_frame_env, 11)]
                             streaming_state)) = []
   \<and> got_keyframe (fst (hang_source_decode_frame key_frame_env 11 streaming_state))
   \<and> frames_waiting_for_keyframe
        (fst (hang_source_decode_frame key_frame_env 11 streaming_state)) = 0"
  using keyframe_gate [of streaming_state delta_frame_env 10
          "\<lparr>payload = [0, 0, 1, 65], timestamp_us = 33000, keyframe = False\<rparr>"
          "[(delta_frame_env, 10), (delta_frame_env, 11)]"]
        keyframe_gate [of streaming_state key_frame_env 11
          "\<lparr>payload = [0, 0, 1, 101], timestamp_us = 66000, keyframe = True\<rparr>" "[]"]
  by (simp add: streaming_state_eq delta_frame_env_def key_frame_env_def carries_keyframe_def
        decode_defs)

subsection \<open>Decode errors\<close>

text \<open>
  C3. Take a frame that gets as far as the decoder, and let \<open>s1\<close> be the state after
  the keyframe bookkeeping (a keyframe clears the error count first).
  \<^item> A genuine failure, of \<^verbatim>\<open>avcodec_send_packet\<close> or of \<^verbatim>\<open>avcodec_receive_frame\<close>,
    adds one to \<open>consecutive_decode_errors\<close>. While the new count is below 5 that is
    the whole effect. When it reaches 5 the decoder is flushed, \<open>got_keyframe\<close> is set
    to false and the count starts again from zero. No output frame is produced either
    way.
  \<^item> After the count has reached 5, every further sequence of frames without a keyframe,
    erring or not, produces no output frame.
  \<^item> The transient \<^verbatim>\<open>AVERROR(EAGAIN)\<close> leaves the count and \<open>got_keyframe\<close> as they are.
  \<^item> In every case the connection chain, the generation and the codec are untouched and
    no handle of the chain is closed: the session stays up.
\<close>

theorem decode_error_resync:
  assumes r: "reaches_decoder env s frame_data"
      and s1: "s1 = keyframe_marked frame_data s"
  shows "(genuine_failure env \<longrightarrow>
            hang_source_decode_frame env frame_id s =
              (if 5 \<le> consecutive_decode_errors s1 + 1
               then (s1\<lparr>got_keyframe := False, consecutive_decode_errors := 0\<rparr>,
                     keyframe_flush frame_data s
                       @ [Avcodec_flush_buffers, Moq_consume_frame_close frame_id])
               else (s1\<lparr>consecutive_decode_errors := consecutive_decode_errors s1 + 1\<rparr>,
                     keyframe_flush frame_data s @ [Moq_consume_frame_close frame_id]))
            \<and> output_frames (snd (hang_source_decode_frame env frame_id s)) = []
            \<and> (5 \<le> consecutive_decode_errors s1 + 1 \<longrightarrow>
                 \<not> got_keyframe (fst (hang_source_decode_frame env frame_id s))
                 \<and> (\<forall>fs. (\<forall>f \<in> set fs. \<not> carries_keyframe (fst f)) \<longrightarrow>
                       output_frames
                         (snd (decode_frames fs (fst (hang_source_decode_frame env frame_id s))))
                         = [])))
    \<and> (needs_more_input env \<longrightarrow>
          consecutive_decode_errors (fst (hang_source_decode_frame env frame_id s))
            = consecutive_decode_errors s1
          \<and> got_keyframe (fst (hang_source_decode_frame env frame_id s)))
    \<and> same_connection s (fst (hang_source_decode_frame env frame_id s))
    \<and> filter closes_chain (snd (hang_source_decode_frame env frame_id s)) = []"
proof -
  have gk: "got_keyframe s1"
    using r by (auto simp: s1 reaches_decoder_def keyframe_marked_def)
  have shape: "same_connection s (fst (hang_source_decode_frame env frame_id s))
    \<and> filter closes_chain (snd (hang_source_decode_frame env frame_id s)) = []"
    using decode_shape [of env frame_id s] by simp
  have fail: "hang_source_decode_frame env frame_id s =
              (if 5 \<le> consecutive_decode_errors s1 + 1
               then (s1\<lparr>got_keyframe := False, consecutive_decode_errors := 0\<rparr>,
                     keyframe_flush frame_data s
                       @ [Avcodec_flush_buffers, Moq_consume_frame_close frame_id])
               else (s1\<lparr>consecutive_decode_errors := consecutive_decode_errors s1 + 1\<rparr>,
                     keyframe_flush frame_data s @ [Moq_consume_frame_close frame_id]))"
    if "genuine_failure env"
    using r that s1 by (rule decode_genuine_failure)
  have quiet: "output_frames (snd (hang_source_decode_frame env frame_id s)) = []"
    if "genuine_failure env"
    by (simp add: fail [OF that] output_frames_append flush_is_quiet)
  have lost: "\<not> got_keyframe (fst (hang_source_decode_frame env frame_id s))"
    if "genuine_failure env" "5 \<le> consecutive_decode_errors s1 + 1"
    using that(2) by (simp add: fail [OF that(1)])
  have after: "\<forall>fs. (\<forall>f \<in> set fs. \<not> carries_keyframe (fst f)) \<longrightarrow>
                 output_frames
                   (snd (decode_frames fs (fst (hang_source_decode_frame env frame_id s)))) = []"
    if "genuine_failure env" "5 \<le> consecutive_decode_errors s1 + 1"
    using decode_frames_wait_for_keyframe [OF lost [OF that]] by blast
  have more: "consecutive_decode_errors (fst (hang_source_decode_frame env frame_id s))
            = consecutive_decode_errors s1
          \<and> got_keyframe (fst (hang_source_decode_frame env frame_id s))"
    if "needs_more_input env"
    using gk by (simp add: decode_needs_more_input [OF r that] s1)
  show ?thesis
    using shape fail quiet lost after more by blast
qed

text \<open>
  The streaming source after a keyframe and four bad frames: the fifth bad frame flushes
  the decoder and clears \<open>got_keyframe\<close>; a delta frame and one more bad frame after it
  give no output; session 2 on origin 1 is still there.
\<close>

theorem decode_error_resync_witness:
  "reaches_decoder bad_frame_env erring_state
     \<lparr>payload = [0, 0, 1, 65], timestamp_us = 33000, keyframe = False\<rparr>
   \<and> genuine_failure bad_frame_env
   \<and> consecutive_decode_errors erring_state = 4
   \<and> hang_source_decode_frame bad_frame_env 16 erring_state
       = (erring_state\<lparr>got_keyframe := False, consecutive_decode_errors := 0\<rparr>,
          [Avcodec_flush_buffers, Moq_consume_frame_close 16])
   \<and> output_frames
        (snd (decode_frames [(delta_frame_env, 17), (bad_frame_env, 18)]
                (fst (hang_source_decode_frame bad_frame_env 16 erring_state)))) = []
   \<and> session (fst (hang_source_decode_frame bad_frame_env 16 erring_state)) = 2
   \<and> origin (fst (hang_source_decode_frame bad_frame_env 16 erring_state)) = 1"
  using decode_error_resync [OF _ refl, of bad_frame_env erring_state
          "\<lparr>payload = [0, 0, 1, 65], timestamp_us = 33000, keyframe = False\<rparr>" 16]
  by (simp add: erring_state_eq keyed_state_eq streaming_state_eq bad_frame_env_def
        delta_frame_env_def outcome_defs decode_defs same_connection_def)

subsection \<open>Change of geometry\<close>

text \<open>
  C4, as the code has it. Take a frame that the decoder turned into a picture whose
  width or height differs from the geometry of the frame buffer (\<open>res\<close> is what
  \<^verbatim>\<open>hang_source_decode_frame\<close> returns, \<open>fw\<close> and \<open>fh\<close> the picture's geometry).
  \<^item> If a dimension is \<open>\<le> 0\<close> or \<open>> 16384\<close>, no output frame is produced, and scaler,
    frame buffer and frame geometry stay as they were.
  \<^item> Otherwise, if the new scaler is created and the new buffer allocated, the scaler
    is the one for \<open>fw\<close> x \<open>fh\<close>, the buffer has \<open>fw * fh * 4\<close> bytes, the frame
    carries the new geometry, and after that the picture is converted and exactly this
    frame, stamped with the frame's timestamp, is output.
  \<^item> Otherwise, if the scaler cannot be created or the buffer cannot be allocated, the
    frame is dropped with no output; the old scaler is gone, buffer and frame geometry
    stay as they were.
\<close>

theorem geometry_change:
  assumes r: "reaches_decoder env s frame_data" and d: "decodes env"
      and g: "geometry_differs env s"
      and fw: "fw = de_frame_width env" and fh: "fh = de_frame_height env"
      and res: "res = hang_source_decode_frame env frame_id s"
  shows "(geometry_out_of_range env \<longrightarrow>
            output_frames (snd res) = []
            \<and> sws_ctx (fst res) = sws_ctx s \<and> frame_buffer (fst res) = frame_buffer s
            \<and> frame (fst res) = frame s)
    \<and> (\<not> geometry_out_of_range env \<and> de_sws_getContext env \<and> de_bmalloc env \<longrightarrow>
          sws_ctx (fst res) = Some (fw, fh)
          \<and> frame_buffer (fst res) = Some (nat fw * nat fh * 4)
          \<and> sint (width (frame (fst res))) = fw \<and> sint (height (frame (fst res))) = fh
          \<and> linesize0 (frame (fst res)) = word_of_int (fw * 4)
          \<and> data0 (frame (fst res)) = Some (nat fw * nat fh * 4)
          \<and> timestamp (frame (fst res)) = timestamp_us frame_data
          \<and> snd res = keyframe_flush frame_data s
                @ [Sws_scale, Obs_source_output_video (Some (frame (fst res))),
                   Moq_consume_frame_close frame_id])
    \<and> (\<not> geometry_out_of_range env \<and> (\<not> de_sws_getContext env \<or> \<not> de_bmalloc env) \<longrightarrow>
          output_frames (snd res) = []
          \<and> sws_ctx (fst res) = None \<and> frame_buffer (fst res) = frame_buffer s
          \<and> frame (fst res) = frame s)"
proof -
  have m: "sws_ctx (keyframe_marked frame_data s) = sws_ctx s"
    "frame_buffer (keyframe_marked frame_data s) = frame_buffer s"
    "frame (keyframe_marked frame_data s) = frame s"
    by (simp_all add: keyframe_marked_def)
  have rejected: "output_frames (snd res) = []
            \<and> sws_ctx (fst res) = sws_ctx s \<and> frame_buffer (fst res) = frame_buffer s
            \<and> frame (fst res) = frame s"
    if "geometry_out_of_range env"
    by (simp add: res decode_geometry_rejected [OF r d g that] m output_frames_append
          flush_is_quiet)
  have unsized: "output_frames (snd res) = []
          \<and> sws_ctx (fst res) = None \<and> frame_buffer (fst res) = frame_buffer s
          \<and> frame (fst res) = frame s"
    if "\<not> geometry_out_of_range env" "\<not> de_sws_getContext env \<or> \<not> de_bmalloc env"
    by (simp add: res decode_resize_fails [OF r d g that] m output_frames_append
          flush_is_quiet)
  have resized: "sws_ctx (fst res) = Some (fw, fh)
          \<and> frame_buffer (fst res) = Some (nat fw * nat fh * 4)
          \<and> sint (width (frame (fst res))) = fw \<and> sint (height (frame (fst res))) = fh
          \<and> linesize0 (frame (fst res)) = word_of_int (fw * 4)
          \<and> data0 (frame (fst res)) = Some (nat fw * nat fh * 4)
          \<and> timestamp (frame (fst res)) = timestamp_us frame_data
          \<and> snd res = keyframe_flush frame_data s
                @ [Sws_scale, Obs_source_output_video (Some (frame (fst res))),
                   Moq_consume_frame_close frame_id]"
    if n: "\<not> geometry_out_of_range env" and a: "de_sws_getContext env" "de_bmalloc env"
  proof -
    have rng: "0 < fw" "fw \<le> 16384" "0 < fh" "fh \<le> 16384"
      using n by (simp_all add: geometry_out_of_range_def fw fh)
    show ?thesis
      by (simp add: res decode_resized [OF r d g n a fw fh refl]
            sint_of_geometry [OF rng(1,2)] sint_of_geometry [OF rng(3,4)])
  qed
  show ?thesis
    using rejected unsized resized by blast
qed

text \<open>
  The 1280 x 720 source receives a 1920 x 1080 keyframe: scaler and buffer (8294400
  bytes) are rebuilt and the frame is output. It receives a 20000 x 1080 one: the frame
  is dropped and nothing is rebuilt.
\<close>

theorem geometry_change_witness:
  "reaches_decoder resize_env streaming_state
     \<lparr>payload = [0, 0, 1, 101], timestamp_us = 66000, keyframe = True\<rparr>
   \<and> decodes resize_env \<and> geometry_differs resize_env streaming_state
   \<and> \<not> geometry_out_of_range resize_env
   \<and> de_sws_getContext resize_env \<and> de_bmalloc resize_env
   \<and> sws_ctx (fst (hang_source_decode_frame resize_env 9 streaming_state)) = Some (1920, 1080)
   \<and> frame_buffer (fst (hang_source_decode_frame resize_env 9 streaming_state))
       = Some 8294400
   \<and> snd (hang_source_decode_frame resize_env 9 streaming_state)
       = [Avcodec_flush_buffers, Sws_scale,
          Obs_source_output_video
            (Some \<lparr>width = 1920, height = 1080, linesize0 = 7680, data0 = Some 8294400,
                   timestamp = 66000\<rparr>),
          Moq_consume_frame_close 9]
   \<and> geometry_differs huge_frame_env streaming_state \<and> geometry_out_of_range huge_frame_env
   \<and> snd (hang_source_decode_frame huge_frame_env 9 streaming_state)
       = [Avcodec_flush_buffers, Moq_consume_frame_close 9]
   \<and> sws_ctx (fst (hang_source_decode_frame huge_frame_env 9 streaming_state))
       = Some (1280, 720)
   \<and> frame_buffer (fst (hang_source_decode_frame huge_frame_env 9 streaming_state))
       = Some 3686400"
  using geometry_change [OF _ _ _ refl refl refl, of resize_env streaming_state
          "\<lparr>payload = [0, 0, 1, 101], timestamp_us = 66000, keyframe = True\<rparr>" 9]
        geometry_change [OF _ _ _ refl refl refl, of huge_frame_env streaming_state
          "\<lparr>payload = [0, 0, 1, 101], timestamp_us = 66000, keyframe = True\<rparr>" 9]
  by (simp add: streaming_state_eq resize_env_def huge_frame_env_def key_frame_env_def
        delta_frame_env_def outcome_defs decode_defs)

text \<open>
  C4 as stated fails when the geometry is in range but no scaler can be had for it: the
  1920 x 1080 keyframe is then dropped, nothing is output, and no scaler is left.
\<close>

theorem geometry_change_counterexample:
  "reaches_decoder resize_fail_env streaming_state
     \<lparr>payload = [0, 0, 1, 101], timestamp_us = 66000, keyframe = True\<rparr>
   \<and> decodes resize_fail_env \<and> geometry_differs resize_fail_env streaming_state
   \<and> \<not> geometry_out_of_range resize_fail_env
   \<and> output_frames (snd (hang_source_decode_frame resize_fail_env 9 streaming_state)) = []
   \<and> sws_ctx (fst (hang_source_decode_frame resize_fail_env 9 streaming_state)) = None
   \<and> frame_buffer (fst (hang_source_decode_frame resize_fail_env 9 streaming_state))
       = Some 3686400
   \<and> width (frame (fst (hang_source_decode_frame resize_fail_env 9 streaming_state))) = 1280"
  by (simp add: streaming_state_eq resize_fail_env_def resize_env_def key_frame_env_def
        delta_frame_env_def outcome_defs decode_defs)

subsection \<open>Failures while the connection is set up\<close>

text \<open>
  C5, at a track subscription that fails. The source has origin 1, session 2 and consume
  handle 3; catalog 5 arrives, the decoder is set up, and \<^verbatim>\<open>moq_consume_video_ordered\<close>
  returns -1. The callback closes catalog 5 and returns: no blank signal is output, and
  origin, session and consume handle stay open. A catalog delivered as an error is
  answered with the blank signal, the chain staying open as well. The sibling path in
  \<^verbatim>\<open>hang_source_start_consume\<close>, where the catalog subscription fails, does close consume
  handle, session and origin and outputs the blank signal.
\<close>

theorem track_failure_keeps_chain:
  "snd (on_catalog failing_track_env 5 consuming_state)
     = [Moq_consume_video_ordered 5, Moq_consume_catalog_close 5]
   \<and> origin (fst (on_catalog failing_track_env 5 consuming_state)) = 1
   \<and> session (fst (on_catalog failing_track_env 5 consuming_state)) = 2
   \<and> consume (fst (on_catalog failing_track_env 5 consuming_state)) = 3
   \<and> on_catalog example_catalog_env (-1) consuming_state
       = (consuming_state, [Obs_source_output_video None])
   \<and> origin consuming_state = 1 \<and> session consuming_state = 2 \<and> consume consuming_state = 3
   \<and> snd (on_session_status failing_catalog_env 0 connecting_state)
       = [Moq_origin_consume 1 ''cam'', Moq_consume_catalog 3,
          Moq_consume_close 3, Moq_session_close 2, Moq_origin_close 1,
          Obs_source_output_video None]
   \<and> consume (fst (on_session_status failing_catalog_env 0 connecting_state)) = -1
   \<and> session (fst (on_session_status failing_catalog_env 0 connecting_state)) = -1
   \<and> origin (fst (on_session_status failing_catalog_env 0 connecting_state)) = -1"
  by (simp add: consuming_state_eq connecting_state_eq on_catalog_def on_session_status_def
        hang_source_start_consume_def close_session_origin_def hang_source_init_decoder_def
        failing_track_env_def failing_catalog_env_def example_catalog_env_def
        example_decoder_env_def no_interleave_def FRAME_WIDTH_def FRAME_HEIGHT_def Let_def)

subsection \<open>Reconnect\<close>

text \<open>
  C6. A reconnect that finds \<open>reconnect_in_progress\<close> set returns at once: same state,
  no call. Otherwise, inside its first critical section, it sets the flag, adds one to
  the generation and tears the existing chain down (\<open>s1\<close> is the state when it releases
  the mutex, \<open>closes\<close> the teardown calls, made first). With the mutex released it blanks
  the output, sleeps, and asks for an origin and a session. When both are granted it
  takes the mutex again (\<open>s2\<close> is the state it finds): if the generation is still the
  one it set, it installs the two handles and clears the flag; if not, it installs
  nothing, clears the flag, and closes the fresh session and the fresh origin.
\<close>

theorem reconnect_generation_gate:
  assumes s1: "s1 = fst (hang_source_disconnect_locked
                           (s\<lparr>reconnect_in_progress := True, generation := generation s + 1\<rparr>))"
      and s2: "s2 = rc_interleave env s1"
      and closes: "closes =
          (if video_track s \<ge> 0 then [Moq_consume_video_close (video_track s)] else [])
          @ (if catalog_handle s \<ge> 0 then [Moq_consume_catalog_close (catalog_handle s)] else [])
          @ (if consume s \<ge> 0 then [Moq_consume_close (consume s)] else [])
          @ (if session s \<ge> 0 then [Moq_session_close (session s)] else [])
          @ (if origin s \<ge> 0 then [Moq_origin_close (origin s)] else [])"
  shows "(reconnect_in_progress s \<longrightarrow> hang_source_reconnect env s = (s, []))
    \<and> (\<not> reconnect_in_progress s \<longrightarrow>
         generation s1 = generation s + 1 \<and> reconnect_in_progress s1
         \<and> video_track s1 < 0 \<and> catalog_handle s1 < 0 \<and> consume s1 < 0
         \<and> session s1 < 0 \<and> origin s1 < 0
         \<and> take (length closes + 3) (snd (hang_source_reconnect env s))
             = closes @ [Obs_source_output_video None, Os_sleep_ms 50, Moq_origin_create]
         \<and> (rc_origin_create env \<ge> 0 \<and> rc_session_connect env \<ge> 0 \<and> url s = Some u \<longrightarrow>
              hang_source_reconnect env s =
                (if generation s2 = generation s + 1
                 then (s2\<lparr>origin := rc_origin_create env,
                           session := rc_session_connect env,
                           reconnect_in_progress := False\<rparr>,
                       closes @ [Obs_source_output_video None, Os_sleep_ms 50, Moq_origin_create,
                                 Moq_session_connect u (rc_origin_create env)])
                 else (s2\<lparr>reconnect_in_progress := False\<rparr>,
                       closes @ [Obs_source_output_video None, Os_sleep_ms 50, Moq_origin_create,
                                 Moq_session_connect u (rc_origin_create env),
                                 Moq_session_close (rc_session_connect env),
                                 Moq_origin_close (rc_origin_create env)]))))"
proof -
  let ?s0 = "s\<lparr>reconnect_in_progress := True, generation := generation s + 1\<rparr>"
  have cl: "snd (hang_source_disconnect_locked ?s0) = closes"
    unfolding disconnect_calls closes by simp
  have noop: "hang_source_reconnect env s = (s, [])" if "reconnect_in_progress s"
    using that by (simp add: hang_source_reconnect_def)
  have st: "generation s1 = generation s + 1 \<and> reconnect_in_progress s1
         \<and> video_track s1 < 0 \<and> catalog_handle s1 < 0 \<and> consume s1 < 0
         \<and> session s1 < 0 \<and> origin s1 < 0"
    unfolding s1 by (simp add: disconnect_keeps disconnect_clears)
  have u1: "url (fst (hang_source_disconnect_locked ?s0)) = url s"
    by (simp add: disconnect_keeps)
  have pre: "take (length closes + 3) (snd (hang_source_reconnect env s))
             = closes @ [Obs_source_output_video None, Os_sleep_ms 50, Moq_origin_create]"
    if "\<not> reconnect_in_progress s"
    using that
    by (simp add: hang_source_reconnect_def Let_def split_def cl split: option.splits)
  have commit: "hang_source_reconnect env s =
                (if generation s2 = generation s + 1
                 then (s2\<lparr>origin := rc_origin_create env,
                           session := rc_session_connect env,
                           reconnect_in_progress := False\<rparr>,
                       closes @ [Obs_source_output_video None, Os_sleep_ms 50, Moq_origin_create,
                                 Moq_session_connect u (rc_origin_create env)])
                 else (s2\<lparr>reconnect_in_progress := False\<rparr>,
                       closes @ [Obs_source_output_video None, Os_sleep_ms 50, Moq_origin_create,
                                 Moq_session_connect u (rc_origin_create env),
                                 Moq_session_close (rc_session_connect env),
                                 Moq_origin_close (rc_origin_create env)]))"
    if "\<not> reconnect_in_progress s" "rc_origin_create env \<ge> 0" "rc_session_connect env \<ge> 0"
       "url s = Some u"
    using that u1
    by (simp add: hang_source_reconnect_def Let_def split_def cl s1 s2)
  show ?thesis
    using noop st pre commit by blast
qed

text \<open>
  On the connected source: a reconnect while one is in progress does nothing; one that
  is superseded closes the handles 4 and 3 it was just given; an undisturbed one installs
  its handles.
\<close>

theorem reconnect_generation_gate_witness:
  "hang_source_reconnect superseding_env (connecting_state\<lparr>reconnect_in_progress := True\<rparr>)
     = (connecting_state\<lparr>reconnect_in_progress := True\<rparr>, [])
   \<and> \<not> reconnect_in_progress connecting_state
   \<and> rc_origin_create superseding_env \<ge> 0 \<and> rc_session_connect superseding_env \<ge> 0
   \<and> url connecting_state = Some ''https://relay''
   \<and> snd (hang_source_reconnect superseding_env connecting_state)
       = [Moq_session_close 2, Moq_origin_close 1,
          Obs_source_output_video None, Os_sleep_ms 50, Moq_origin_create,
          Moq_session_connect ''https://relay'' 3, Moq_session_close 4, Moq_origin_close 3]
   \<and> origin (fst (hang_source_reconnect superseding_env connecting_state)) = -1
   \<and> session (fst (hang_source_reconnect superseding_env connecting_state)) = -1
   \<and> generation (fst (hang_source_reconnect superseding_env connecting_state)) = 3
   \<and> snd (hang_source_reconnect (tk_reconnect example_tick_env) connecting_state)
       = [Moq_session_close 2, Moq_origin_close 1,
          Obs_source_output_video None, Os_sleep_ms 50, Moq_origin_create,
          Moq_session_connect ''https://relay'' 1]
   \<and> origin (fst (hang_source_reconnect (tk_reconnect example_tick_env) connecting_state)) = 1
   \<and> session (fst (hang_source_reconnect (tk_reconnect example_tick_env) connecting_state)) = 2
   \<and> generation (fst (hang_source_reconnect (tk_reconnect example_tick_env) connecting_state))
       = 2"
  using reconnect_generation_gate [OF refl refl refl,
          of "connecting_state\<lparr>reconnect_in_progress := True\<rparr>" superseding_env]
        reconnect_generation_gate [OF refl refl refl,
          of connecting_state superseding_env "''https://relay''"]
        reconnect_generation_gate [OF refl refl refl,
          of connecting_state "tk_reconnect example_tick_env" "''https://relay''"]
  by (simp add: connecting_state_eq superseding_env_def example_tick_env_def
        no_interleave_def hang_source_disconnect_locked_def
        hang_source_destroy_decoder_locked_def Let_def)

subsection \<open>Shutdown\<close>

text \<open>
  C7. No entry point clears \<open>shutting_down\<close>: once it is set it stays set through
  every sequence of updates, ticks, callbacks and destruction (and destruction sets it).
  In a state where it is set, the tick and the session-status callback return the state
  as it is and make no call; the catalog callback and the video-frame callback return
  the state as it is and only close the handle they were given, when it is a handle
  (non-negative). So any sequence of ticks and callbacks delivered after shutdown leaves
  the whole state, connection and decoder included, as it was.
\<close>

theorem shutdown_is_final:
  assumes "shutting_down s"
  shows "shutting_down (fst (run es s))
    \<and> shutting_down (fst (hang_source_destroy s0))
    \<and> hang_source_video_tick tenv now s = (s, [])
    \<and> on_session_status senv code s = (s, [])
    \<and> on_catalog cenv catalog s =
        (s, if catalog \<ge> 0 then [Moq_consume_catalog_close catalog] else [])
    \<and> on_video_frame fenv frame_id s =
        (s, if frame_id \<ge> 0 then [Moq_consume_frame_close frame_id] else [])
    \<and> ((\<forall>e \<in> set es. is_async e) \<longrightarrow> run es s = (s, concat (map inbound_close es)))"
  using assms shutdown_kept_by_run [of s es] run_discarded_after_shutdown [of s es]
  by (simp add: hang_source_video_tick_def on_session_status_def on_catalog_def
        on_video_frame_def hang_source_destroy_def disconnect_keeps split_def Let_def)

text \<open>
  The streaming source after its destruction began: a late catalog 7, a late frame 8,
  a session status and a tick change nothing and close 7 and 8.
\<close>

theorem shutdown_is_final_witness:
  "shutting_down shut_down_state
   \<and> is_async (Catalog example_catalog_env 7)
   \<and> is_async (Video_frame \<lparr>vf_interleave = no_interleave, vf_decode = key_frame_env\<rparr> 8)
   \<and> is_async (Session_status example_status_env 0)
   \<and> is_async (Tick example_tick_env 5000000000)
   \<and> run [Catalog example_catalog_env 7,
           Video_frame \<lparr>vf_interleave = no_interleave, vf_decode = key_frame_env\<rparr> 8,
           Session_status example_status_env 0,
           Tick example_tick_env 5000000000] shut_down_state
       = (shut_down_state, [Moq_consume_catalog_close 7, Moq_consume_frame_close 8])
   \<and> shutting_down (fst (run [Update ''https://relay2'' ''cam'' 4000000000, Destroy]
                            shut_down_state))"
  using shutdown_is_final [of shut_down_state
          "[Catalog example_catalog_env 7,
            Video_frame \<lparr>vf_interleave = no_interleave, vf_decode = key_frame_env\<rparr> 8,
            Session_status example_status_env 0,
            Tick example_tick_env 5000000000]"]
        shutdown_is_final [of shut_down_state
          "[Update ''https://relay2'' ''cam'' 4000000000, Destroy]"]
  by (simp add: shut_down_state_eq)

subsection \<open>Invalid configuration\<close>

text \<open>
  C8. When the tick fires after the debounce window on a pending configuration that
  differs from the active one and whose url or broadcast name is empty (or null), it
  adopts the values, closes every open handle of the existing connection in the fixed
  order (track, catalog, consume, session, origin) inside the same critical section,
  emits the blank signal after that, and asks the transport for no handle: all five
  handle slots are invalid afterwards and no call that creates a handle was made.
\<close>

theorem empty_config_blanks:
  assumes "\<not> shutting_down s" and "reconnect_pending s"
    and "\<not> (now - settings_changed_time s) div 1000000 < DEBOUNCE_DELAY_MS"
    and "(url s, broadcast s) \<noteq> (pending_url s, pending_broadcast s)"
    and "pending_url s = None \<or> pending_url s = Some []
         \<or> pending_broadcast s = None \<or> pending_broadcast s = Some []"
    and "s2 = s\<lparr>reconnect_pending := False,
                 url := pending_url s, broadcast := pending_broadcast s\<rparr>"
  shows "hang_source_video_tick env now s =
           (fst (hang_source_disconnect_locked s2),
            snd (hang_source_disconnect_locked s2) @ [Obs_source_output_video None])
    \<and> snd (hang_source_video_tick env now s) =
        (if video_track s \<ge> 0 then [Moq_consume_video_close (video_track s)] else [])
        @ (if catalog_handle s \<ge> 0 then [Moq_consume_catalog_close (catalog_handle s)] else [])
        @ (if consume s \<ge> 0 then [Moq_consume_close (consume s)] else [])
        @ (if session s \<ge> 0 then [Moq_session_close (session s)] else [])
        @ (if origin s \<ge> 0 then [Moq_origin_close (origin s)] else [])
        @ [Obs_source_output_video None]
    \<and> filter creates_handle (snd (hang_source_video_tick env now s)) = []
    \<and> video_track (fst (hang_source_video_tick env now s)) < 0
    \<and> catalog_handle (fst (hang_source_video_tick env now s)) < 0
    \<and> consume (fst (hang_source_video_tick env now s)) < 0
    \<and> session (fst (hang_source_video_tick env now s)) < 0
    \<and> origin (fst (hang_source_video_tick env now s)) < 0"
proof -
  have ch: "url s \<noteq> pending_url s \<or> broadcast s \<noteq> pending_broadcast s"
    using assms(4) by simp
  have eq: "hang_source_video_tick env now s =
           (fst (hang_source_disconnect_locked s2),
            snd (hang_source_disconnect_locked s2) @ [Obs_source_output_video None])"
    using assms(1,2,3,5) ch unfolding assms(6)
    by (cases "url s"; cases "pending_url s"; cases "broadcast s"; cases "pending_broadcast s")
       (auto simp: hang_source_video_tick_def Let_def split_def)
  have calls: "snd (hang_source_disconnect_locked s2) = snd (hang_source_disconnect_locked s)"
    unfolding disconnect_calls by (simp add: assms(6))
  show ?thesis
    unfolding eq calls
    by (simp add: disconnect_clears disconnect_creates_nothing disconnect_calls)
qed

theorem empty_config_blanks_witness:
  "\<not> shutting_down cleared_state \<and> reconnect_pending cleared_state
   \<and> \<not> (2000000000 - settings_changed_time cleared_state) div 1000000 < DEBOUNCE_DELAY_MS
   \<and> (url cleared_state, broadcast cleared_state)
        \<noteq> (pending_url cleared_state, pending_broadcast cleared_state)
   \<and> pending_url cleared_state = Some []
   \<and> snd (hang_source_video_tick example_tick_env 2000000000 cleared_state)
        = [Moq_session_close 2, Moq_origin_close 1, Obs_source_output_video None]
   \<and> session (fst (hang_source_video_tick example_tick_env 2000000000 cleared_state)) < 0
   \<and> origin (fst (hang_source_video_tick example_tick_env 2000000000 cleared_state)) < 0"
  using empty_config_blanks [OF _ _ _ _ _ refl, of cleared_state 2000000000 example_tick_env]
  by (simp add: cleared_state_def connecting_state_eq hang_source_update_def
        DEBOUNCE_DELAY_MS_def disconnect_clears disconnect_calls)

subsection \<open>The settings update\<close>

text \<open>
  C9, as the code has it. After a settings update with \<open>u\<close> and \<open>b\<close> the pending
  configuration is \<open>(u, b)\<close>. When that changed a pending value (or none was set
  before), the clock reading is recorded in \<open>settings_changed_time\<close> and
  \<open>reconnect_pending\<close> is set; when both values were pending already, the state is
  left exactly as it was. In either case nothing but these four fields is written: no
  handle, no generation, no active configuration, so no connection is initiated.
\<close>

theorem update_stages_intent:
  "pending_url (hang_source_update u b now s) = Some u
   \<and> pending_broadcast (hang_source_update u b now s) = Some b
   \<and> (if pending_url s = Some u \<and> pending_broadcast s = Some b
      then hang_source_update u b now s = s
      else settings_changed_time (hang_source_update u b now s) = now
           \<and> reconnect_pending (hang_source_update u b now s))
   \<and> hang_source_update u b now s =
       s\<lparr>pending_url := pending_url (hang_source_update u b now s),
         pending_broadcast := pending_broadcast (hang_source_update u b now s),
         settings_changed_time := settings_changed_time (hang_source_update u b now s),
         reconnect_pending := reconnect_pending (hang_source_update u b now s)\<rparr>"
  by (auto simp: hang_source_update_def Let_def split: option.splits)

theorem update_stages_intent_witness:
  "pending_url connecting_state \<noteq> Some ''https://other''
   \<and> settings_changed_time
        (hang_source_update ''https://other'' ''cam'' 700000000 connecting_state) = 700000000
   \<and> reconnect_pending
        (hang_source_update ''https://other'' ''cam'' 700000000 connecting_state)
   \<and> pending_url connecting_state = Some ''https://relay''
   \<and> pending_broadcast connecting_state = Some ''cam''
   \<and> hang_source_update ''https://relay'' ''cam'' 700000000 connecting_state
       = connecting_state"
  using update_stages_intent [of "''https://other''" "''cam''" 700000000 connecting_state]
        update_stages_intent [of "''https://relay''" "''cam''" 700000000 connecting_state]
  by (simp add: connecting_state_eq)

text \<open>
  C9 as stated fails when the values written are the pending ones: the time is not
  recorded and \<open>reconnect_pending\<close> stays false.
\<close>

theorem update_stages_intent_counterexample:
  "settings_changed_time
      (hang_source_update ''https://relay'' ''cam'' 700000000 connecting_state) \<noteq> 700000000
   \<and> \<not> reconnect_pending
      (hang_source_update ''https://relay'' ''cam'' 700000000 connecting_state)"
  by (simp add: connecting_state_eq hang_source_update_def)

subsection \<open>Frame handles\<close>

text \<open>
  C10. A frame handle (a non-negative id) delivered to the video-frame callback is
  closed exactly once, whatever the state, whatever other threads do between the
  callback's check and the decoding, and whatever the collaborators answer: among the
  calls made there is one \<^verbatim>\<open>moq_consume_frame_close\<close>, it is for this handle, and it is
  the last call. The same holds of \<^verbatim>\<open>hang_source_decode_frame\<close> alone.
\<close>

theorem frame_closed_once:
  assumes "frame_id \<ge> 0"
  shows "filter is_frame_close (snd (on_video_frame env frame_id s))
           = [Moq_consume_frame_close frame_id]
    \<and> filter is_frame_close (snd (hang_source_decode_frame denv frame_id s))
           = [Moq_consume_frame_close frame_id]
    \<and> last (snd (on_video_frame env frame_id s)) = Moq_consume_frame_close frame_id"
proof -
  have a: "filter is_frame_close (snd (on_video_frame env frame_id s))
           = [Moq_consume_frame_close frame_id]"
    using assms by (rule video_frame_closes_once)
  have b: "filter is_frame_close (snd (hang_source_decode_frame denv frame_id s))
           = [Moq_consume_frame_close frame_id]"
    using decode_shape [of denv frame_id s] by simp
  have c: "last (snd (on_video_frame env frame_id s)) = Moq_consume_frame_close frame_id"
  proof (cases "shutting_down s \<or> consume s < 0")
    case True
    then show ?thesis
      using assms by (auto simp: on_video_frame_def)
  next
    case False
    then have e: "on_video_frame env frame_id s =
               hang_source_decode_frame (vf_decode env) frame_id (vf_interleave env s)"
      using assms by (simp add: on_video_frame_def)
    show ?thesis
      unfolding e
      using decode_shape [of "vf_decode env" frame_id "vf_interleave env s"] by simp
  qed
  show ?thesis
    using a b c by blast
qed

text \<open>
  Frames delivered after shutdown, before the consume handle exists, before the decoder
  exists, while waiting for a keyframe, with a decode error, with a scaler that cannot
  be rebuilt, with a rejected geometry, and decoded and output.
\<close>

theorem frame_closed_once_witness:
  "(0::int) \<le> 8
   \<and> snd (on_video_frame (undisturbed key_frame_env) 8 shut_down_state)
       = [Moq_consume_frame_close 8]
   \<and> snd (on_video_frame (undisturbed key_frame_env) 8 connecting_state)
       = [Moq_consume_frame_close 8]
   \<and> snd (on_video_frame (undisturbed key_frame_env) 8 consuming_state)
       = [Moq_consume_frame_close 8]
   \<and> snd (on_video_frame (undisturbed delta_frame_env) 8 streaming_state)
       = [Moq_consume_frame_close 8]
   \<and> snd (on_video_frame (undisturbed bad_frame_env) 8 erring_state)
       = [Avcodec_flush_buffers, Moq_consume_frame_close 8]
   \<and> snd (on_video_frame (undisturbed resize_fail_env) 8 streaming_state)
       = [Avcodec_flush_buffers, Moq_consume_frame_close 8]
   \<and> snd (on_video_frame (undisturbed huge_frame_env) 8 streaming_state)
       = [Avcodec_flush_buffers, Moq_consume_frame_close 8]
   \<and> snd (on_video_frame (undisturbed key_frame_env) 8 streaming_state)
       = [Avcodec_flush_buffers, Sws_scale,
          Obs_source_output_video
            (Some \<lparr>width = 1280, height = 720, linesize0 = 5120, data0 = Some 3686400,
                   timestamp = 66000\<rparr>),
          Moq_consume_frame_close 8]"
  using frame_closed_once [of 8 "undisturbed key_frame_env" shut_down_state]
        frame_closed_once [of 8 "undisturbed key_frame_env" streaming_state]
  by (simp add: on_video_frame_def undisturbed_def no_interleave_def shut_down_state_eq
        connecting_state_eq consuming_state_eq streaming_state_eq keyed_state_eq
        erring_state_eq key_frame_env_def delta_frame_env_def bad_frame_env_def
        resize_fail_env_def resize_env_def huge_frame_env_def decode_defs)

end
